theory Spec2Isabelle
  imports Main "HOL-Library.Multiset"
begin

section \<open>Requests, documents and responses\<close>

text \<open>
  The service is one Express application (\<^verbatim>\<open>src/server.js\<close>) over two Mongoose
  collections, users and meetings. A request body is the JSON object produced by
  \<^verbatim>\<open>express.json()\<close>; reading a key that the object does not have gives
  \<^verbatim>\<open>undefined\<close>, which is \<open>None\<close> here. JSON numbers are restricted to integers.

  Outside the model: a body that is not JSON (it never reaches a route), a failure of the
  connection to the database (any handler would answer 500), and, on create, body keys
  other than the plain paths of the two schemas (a client-supplied \<^verbatim>\<open>_id\<close> is covered
  by the id of a new document being arbitrary; client-supplied timestamps and dotted
  paths are not modelled, and nothing below states what a created document holds). On
  update such keys are the \<open>updateOperators\<close> of the library parameter.
\<close>

datatype json =
    JNull
  | JBool bool
  | JNum int
  | JStr string
  | JArr "json list"
  | JObj "(string \<times> json) list"

type_synonym body = "string \<rightharpoonup> json"

datatype http_method = GET | POST | PUT | DELETE | OTHER

record request =
  req_method :: http_method
  req_path :: "string list"
  req_body :: body

text \<open>
  The two schemas (lines 22-74 of the source). Object ids are kept as their canonical
  strings and dates as milliseconds since the epoch. An optional string path that is unset
  or null is \<open>None\<close>; a null entry of the attendees array is \<open>None\<close> as well.
\<close>

record user =
  u_id :: string
  u_name :: string
  u_email :: string
  u_createdAt :: int
  u_updatedAt :: int

record meeting =
  m_id :: string
  title :: string
  description :: "string option"
  startDate :: int
  endDate :: int
  location :: "string option"
  organizer :: string
  attendees :: "string option list"
  m_createdAt :: int
  m_updatedAt :: int

record store =
  users :: "user list"
  meetings :: "meeting list"

text \<open>
  What the process reads from its surroundings while it serves one request: the clock
  (\<^verbatim>\<open>new Date()\<close>, and the timestamps Mongoose writes) and the object id that Mongoose
  generates for a new document.
\<close>

record env =
  now :: int
  newId :: string

text \<open>
  \<^verbatim>\<open>populate('organizer', 'name email')\<close> replaces a reference by the selected fields of
  the user it names, or by null when there is no such user; in a populated array the
  entries that name no user are left out.
\<close>

record user_summary =
  s_id :: string
  s_name :: string
  s_email :: string

record populated =
  doc :: meeting
  organizer_doc :: "user_summary option"
  attendee_docs :: "user_summary list"

datatype exn = CastError | ValidationError | DuplicateKey | ImmutableField

datatype payload =
    Message string
  | Error string
  | ErrorMessage exn
  | Errors "(string \<times> string) list"
  | UserJson user
  | UsersJson "user list"
  | MeetingJson populated
  | MeetingsJson "populated list"
  | NullJson

record response =
  status :: nat
  payload :: payload

section \<open>The libraries the source calls\<close>

text \<open>
  The source delegates every judgement about the shape of a value to express-validator,
  to the JavaScript \<^verbatim>\<open>Date\<close> constructor and to Mongoose's schema types. Their code is
  not part of the repository, so the handlers below take them as a parameter \<open>L\<close> and
  every general theorem holds for each behaviour the libraries may have.

  \<^item> \<open>notEmpty\<close>, \<open>isISO8601\<close>, \<open>isMongoId\<close>, \<open>isEmail\<close>: whether the validator of that
    name accepts the value of a body field (\<open>None\<close> when the field is absent).
  \<^item> \<open>newDate\<close>: the time value of \<^verbatim>\<open>new Date(v)\<close>, \<open>None\<close> for an invalid date (NaN).
  \<^item> \<open>castString\<close>, \<open>castDate\<close>, \<open>castObjectId\<close>: Mongoose's cast of a value to the type
    of a schema path: it throws, yields null, or yields a value.
  \<^item> \<open>trim\<close>, \<open>toLowerCase\<close>: the string setters of the schemas.
  \<^item> \<open>updateOperators\<close>: what Mongoose makes, in an update, of the body keys that are not
    plain schema paths: update operators (\<^verbatim>\<open>$set\<close>, \<^verbatim>\<open>$push\<close>, \<^verbatim>\<open>$addToSet\<close>, ...)
    and dotted paths. It throws, or yields what they do to the stored document (nothing,
    for a body without such keys).
\<close>

datatype 'a cast = CastFails | CastNull | CastTo 'a

record lib =
  notEmpty :: "json option \<Rightarrow> bool"
  isISO8601 :: "json option \<Rightarrow> bool"
  isMongoId :: "json option \<Rightarrow> bool"
  isEmail :: "json option \<Rightarrow> bool"
  newDate :: "json option \<Rightarrow> int option"
  castString :: "json \<Rightarrow> string cast"
  castDate :: "json \<Rightarrow> int cast"
  castObjectId :: "json \<Rightarrow> string cast"
  trim :: "string \<Rightarrow> string"
  toLowerCase :: "string \<Rightarrow> string"
  updateOperators :: "body \<Rightarrow> exn + (meeting \<Rightarrow> meeting)"

section \<open>Validation middleware\<close>

text \<open>\<^verbatim>\<open>Array.isArray\<close>, which is all that \<^verbatim>\<open>isArray()\<close> asks of a value.\<close>

fun isArray :: "json \<Rightarrow> bool" where
  "isArray (JArr xs) = True"
| "isArray v = False"

text \<open>
  \<^verbatim>\<open>validateMeeting\<close> (lines 81-87): five chains, run in this order, each adding its
  message when its validator refuses the field. The chain of \<open>attendees\<close> is
  \<^verbatim>\<open>optional()\<close>: it is skipped when the field is absent.
\<close>

definition validateMeeting :: "lib \<Rightarrow> body \<Rightarrow> (string \<times> string) list" where
  "validateMeeting L b =
     (if notEmpty L (b ''title'') then [] else [(''title'', ''Title is required'')]) @
     (if isISO8601 L (b ''startDate'') then []
      else [(''startDate'', ''Start date must be a valid date'')]) @
     (if isISO8601 L (b ''endDate'') then []
      else [(''endDate'', ''End date must be a valid date'')]) @
     (if isMongoId L (b ''organizer'') then []
      else [(''organizer'', ''Organizer must be a valid user ID'')]) @
     (case b ''attendees'' of
        None \<Rightarrow> []
      | Some v \<Rightarrow> if isArray v then [] else [(''attendees'', ''Attendees must be an array'')])"

text \<open>\<^verbatim>\<open>validateUser\<close> (lines 89-92).\<close>

definition validateUser :: "lib \<Rightarrow> body \<Rightarrow> (string \<times> string) list" where
  "validateUser L b =
     (if notEmpty L (b ''name'') then [] else [(''name'', ''Name is required'')]) @
     (if isEmail L (b ''email'') then [] else [(''email'', ''Valid email is required'')])"

text \<open>
  \<^verbatim>\<open>handleValidationErrors\<close> (lines 95-101): with a failure recorded it answers 400 and
  the handler behind it never runs; otherwise it yields to the handler.
\<close>

definition handleValidationErrors ::
  "(string \<times> string) list \<Rightarrow> (store \<Rightarrow> response \<times> store) \<Rightarrow> store \<Rightarrow> response \<times> store" where
  "handleValidationErrors errors next s =
     (if errors \<noteq> [] then (\<lparr>status = 400, payload = Errors errors\<rparr>, s) else next s)"

section \<open>Store operations\<close>

definition bindE :: "'e + 'a \<Rightarrow> ('a \<Rightarrow> 'e + 'b) \<Rightarrow> 'e + 'b" where
  "bindE m f = (case m of Inl e \<Rightarrow> Inl e | Inr x \<Rightarrow> f x)"

text \<open>
  \<^verbatim>\<open>Model.findById(v)\<close>: the value is cast to an object id, which may throw; an absent or
  null value matches no document.
\<close>

definition castId :: "lib \<Rightarrow> json option \<Rightarrow> exn + string option" where
  "castId L v =
     (case v of
        None \<Rightarrow> Inr None
      | Some j \<Rightarrow>
          (case castObjectId L j of
             CastFails \<Rightarrow> Inl CastError
           | CastNull \<Rightarrow> Inr None
           | CastTo i \<Rightarrow> Inr (Some i)))"

definition userById :: "string option \<Rightarrow> user list \<Rightarrow> user option" where
  "userById r us = (case r of None \<Rightarrow> None | Some i \<Rightarrow> find (\<lambda>u. u_id u = i) us)"

definition meetingById :: "string option \<Rightarrow> meeting list \<Rightarrow> meeting option" where
  "meetingById r ms = (case r of None \<Rightarrow> None | Some i \<Rightarrow> find (\<lambda>m. m_id m = i) ms)"

definition User_findById :: "lib \<Rightarrow> json option \<Rightarrow> store \<Rightarrow> exn + user option" where
  "User_findById L v s = bindE (castId L v) (\<lambda>r. Inr (userById r (users s)))"

definition Meeting_findById :: "lib \<Rightarrow> json option \<Rightarrow> store \<Rightarrow> exn + meeting option" where
  "Meeting_findById L v s = bindE (castId L v) (\<lambda>r. Inr (meetingById r (meetings s)))"

text \<open>
  The cast of an array of references, as in the query \<^verbatim>\<open>{ _id: { $in: [...] } }\<close> and in
  the \<open>attendees\<close> path of a document: one failing element makes the whole cast throw.
\<close>

fun ref_of :: "string cast \<Rightarrow> string option" where
  "ref_of (CastTo i) = Some i"
| "ref_of c = None"

definition castIds :: "lib \<Rightarrow> json list \<Rightarrow> exn + string option list" where
  "castIds L js =
     (if CastFails \<in> set (map (castObjectId L) js) then Inl CastError
      else Inr (map (\<lambda>j. ref_of (castObjectId L j)) js))"

text \<open>\<^verbatim>\<open>User.countDocuments({ _id: { $in: js } })\<close>: the users whose id is among the values.\<close>

definition User_countDocuments :: "lib \<Rightarrow> json list \<Rightarrow> store \<Rightarrow> exn + nat" where
  "User_countDocuments L js s =
     bindE (castIds L js) (\<lambda>rs. Inr (length (filter (\<lambda>u. Some (u_id u) \<in> set rs) (users s))))"

definition summary :: "user \<Rightarrow> user_summary" where
  "summary u = \<lparr>s_id = u_id u, s_name = u_name u, s_email = u_email u\<rparr>"

definition populate :: "store \<Rightarrow> meeting \<Rightarrow> populated" where
  "populate s m =
     \<lparr>doc = m,
      organizer_doc = map_option summary (userById (Some (organizer m)) (users s)),
      attendee_docs =
        List.map_filter (\<lambda>r. map_option summary (userById r (users s))) (attendees m)\<rparr>"

section \<open>Documents as Mongoose builds them\<close>

text \<open>
  A path that the body does not have is undefined in the document. A required path must
  cast to a value; an optional one may stay null. A cast that throws while a document is
  built is reported by \<^verbatim>\<open>save()\<close> as a validation error.
\<close>

definition castPath :: "(json \<Rightarrow> 'a cast) \<Rightarrow> json option \<Rightarrow> 'a cast" where
  "castPath c v = (case v of None \<Rightarrow> CastNull | Some j \<Rightarrow> c j)"

definition requiredPath :: "'a cast \<Rightarrow> exn + 'a" where
  "requiredPath c = (case c of CastTo x \<Rightarrow> Inr x | _ \<Rightarrow> Inl ValidationError)"

definition optionalPath :: "'a cast \<Rightarrow> exn + 'a option" where
  "optionalPath c =
     (case c of CastFails \<Rightarrow> Inl ValidationError | CastNull \<Rightarrow> Inr None | CastTo x \<Rightarrow> Inr (Some x))"

text \<open>
  The elements of an array path. The validation middleware lets \<open>attendees\<close> through only
  when it is absent or an array; Mongoose would wrap any other value into an array of one.
\<close>

definition elements :: "json option \<Rightarrow> json list" where
  "elements v = (case v of None \<Rightarrow> [] | Some (JArr xs) \<Rightarrow> xs | Some j \<Rightarrow> [j])"

definition arrayPath :: "lib \<Rightarrow> json option \<Rightarrow> exn + string option list" where
  "arrayPath L v = (case castIds L (elements v) of Inl e \<Rightarrow> Inl ValidationError | Inr rs \<Rightarrow> Inr rs)"

text \<open>
  \<^verbatim>\<open>new Meeting(req.body)\<close> under the meeting schema (lines 41-74): \<open>title\<close> is a required
  trimmed string (a required string is not empty), the dates and the organizer are
  required, \<open>description\<close> and \<open>location\<close> are optional trimmed strings, and the
  timestamps are set by Mongoose.
\<close>

definition newMeeting :: "lib \<Rightarrow> env \<Rightarrow> body \<Rightarrow> exn + meeting" where
  "newMeeting L E b =
     bindE (requiredPath (castPath (castString L) (b ''title''))) (\<lambda>t.
     bindE (optionalPath (castPath (castString L) (b ''description''))) (\<lambda>d.
     bindE (requiredPath (castPath (castDate L) (b ''startDate''))) (\<lambda>sd.
     bindE (requiredPath (castPath (castDate L) (b ''endDate''))) (\<lambda>ed.
     bindE (optionalPath (castPath (castString L) (b ''location''))) (\<lambda>l.
     bindE (requiredPath (castPath (castObjectId L) (b ''organizer''))) (\<lambda>og.
     bindE (arrayPath L (b ''attendees'')) (\<lambda>as.
       if trim L t = [] then Inl ValidationError
       else Inr \<lparr>m_id = newId E, title = trim L t, description = map_option (trim L) d,
                 startDate = sd, endDate = ed, location = map_option (trim L) l,
                 organizer = og, attendees = as,
                 m_createdAt = now E, m_updatedAt = now E\<rparr>)))))))"

text \<open>
  \<^verbatim>\<open>meeting.save()\<close> of a new document: the collection keeps \<^verbatim>\<open>_id\<close> unique and
  refuses a second document with an id it already holds (error code 11000).
\<close>

definition insertMeeting :: "meeting \<Rightarrow> store \<Rightarrow> exn + store" where
  "insertMeeting m s =
     (if m_id m \<in> set (map m_id (meetings s)) then Inl DuplicateKey
      else Inr (s\<lparr>meetings := meetings s @ [m]\<rparr>))"

text \<open>
  \<^verbatim>\<open>new User(req.body)\<close> under the user schema (lines 23-38) and its \<^verbatim>\<open>save()\<close>: the
  collection has a unique index on \<open>email\<close> besides the one on \<^verbatim>\<open>_id\<close>.
\<close>

definition newUser :: "lib \<Rightarrow> env \<Rightarrow> body \<Rightarrow> exn + user" where
  "newUser L E b =
     bindE (requiredPath (castPath (castString L) (b ''name''))) (\<lambda>n.
     bindE (requiredPath (castPath (castString L) (b ''email''))) (\<lambda>e.
       if trim L n = [] \<or> toLowerCase L (trim L e) = [] then Inl ValidationError
       else Inr \<lparr>u_id = newId E, u_name = trim L n, u_email = toLowerCase L (trim L e),
                 u_createdAt = now E, u_updatedAt = now E\<rparr>))"

definition insertUser :: "user \<Rightarrow> store \<Rightarrow> exn + store" where
  "insertUser u s =
     (if u_id u \<in> set (map u_id (users s)) \<or> u_email u \<in> set (map u_email (users s))
      then Inl DuplicateKey
      else Inr (s\<lparr>users := users s @ [u]\<rparr>))"

text \<open>
  The update document of \<^verbatim>\<open>findByIdAndUpdate(id, req.body, { runValidators: true })\<close>.
  Mongoose gathers the body keys that are plain schema paths into a \<^verbatim>\<open>$set\<close>; this is
  \<open>castUpdate\<close>. Only the paths that the body has are set. Each is cast first, and a cast
  that throws rejects the whole update; then the validators of the paths that are set
  run, where a required path refuses null and a required string refuses the empty string.
  The other keys of the body (update operators, dotted paths) are left to
  \<open>updateOperators\<close>.
\<close>

record meeting_update =
  set_title :: "string option"
  set_description :: "string option option"
  set_startDate :: "int option"
  set_endDate :: "int option"
  set_location :: "string option option"
  set_organizer :: "string option"
  set_attendees :: "string option list option"

definition castThrows :: "(json \<Rightarrow> 'a cast) \<Rightarrow> json option \<Rightarrow> bool" where
  "castThrows c v = (case v of None \<Rightarrow> False | Some j \<Rightarrow> c j = CastFails)"

definition updateCastThrows :: "lib \<Rightarrow> body \<Rightarrow> bool" where
  "updateCastThrows L b \<longleftrightarrow>
     castThrows (castString L) (b ''title'') \<or>
     castThrows (castString L) (b ''description'') \<or>
     castThrows (castDate L) (b ''startDate'') \<or>
     castThrows (castDate L) (b ''endDate'') \<or>
     castThrows (castString L) (b ''location'') \<or>
     castThrows (castObjectId L) (b ''organizer'') \<or>
     (b ''attendees'' \<noteq> None \<and> CastFails \<in> set (map (castObjectId L) (elements (b ''attendees''))))"

definition setRequired :: "(json \<Rightarrow> 'a cast) \<Rightarrow> json option \<Rightarrow> exn + 'a option" where
  "setRequired c v =
     (case v of
        None \<Rightarrow> Inr None
      | Some j \<Rightarrow> (case c j of CastTo x \<Rightarrow> Inr (Some x) | _ \<Rightarrow> Inl ValidationError))"

definition setOptional :: "(json \<Rightarrow> 'a cast) \<Rightarrow> json option \<Rightarrow> 'a option option" where
  "setOptional c v =
     (case v of
        None \<Rightarrow> None
      | Some j \<Rightarrow> (case c j of CastTo x \<Rightarrow> Some (Some x) | _ \<Rightarrow> Some None))"

definition castUpdate :: "lib \<Rightarrow> body \<Rightarrow> exn + meeting_update" where
  "castUpdate L b =
     (if updateCastThrows L b then Inl CastError
      else
        bindE (setRequired (castString L) (b ''title'')) (\<lambda>t.
        bindE (setRequired (castDate L) (b ''startDate'')) (\<lambda>sd.
        bindE (setRequired (castDate L) (b ''endDate'')) (\<lambda>ed.
        bindE (setRequired (castObjectId L) (b ''organizer'')) (\<lambda>og.
          if map_option (trim L) t = Some [] then Inl ValidationError
          else Inr \<lparr>set_title = map_option (trim L) t,
                    set_description =
                      map_option (map_option (trim L)) (setOptional (castString L) (b ''description'')),
                    set_startDate = sd, set_endDate = ed,
                    set_location =
                      map_option (map_option (trim L)) (setOptional (castString L) (b ''location'')),
                    set_organizer = og,
                    set_attendees =
                      (if b ''attendees'' = None then None
                       else Some (map (\<lambda>j. ref_of (castObjectId L j)) (elements (b ''attendees''))))\<rparr>)))))"

definition orElse :: "'a option \<Rightarrow> 'a \<Rightarrow> 'a" where
  "orElse v d = (case v of None \<Rightarrow> d | Some x \<Rightarrow> x)"

definition applyUpdate :: "meeting_update \<Rightarrow> int \<Rightarrow> meeting \<Rightarrow> meeting" where
  "applyUpdate u t m =
     m\<lparr>title := orElse (set_title u) (title m),
       description := orElse (set_description u) (description m),
       startDate := orElse (set_startDate u) (startDate m),
       endDate := orElse (set_endDate u) (endDate m),
       location := orElse (set_location u) (location m),
       organizer := orElse (set_organizer u) (organizer m),
       attendees := orElse (set_attendees u) (attendees m),
       m_updatedAt := t\<rparr>"

text \<open>An update or a deletion by id touches the first document that has the id.\<close>

fun updateFirst :: "('a \<Rightarrow> bool) \<Rightarrow> ('a \<Rightarrow> 'a) \<Rightarrow> 'a list \<Rightarrow> 'a list" where
  "updateFirst P f [] = []"
| "updateFirst P f (x # xs) = (if P x then f x # xs else x # updateFirst P f xs)"

fun deleteFirst :: "('a \<Rightarrow> bool) \<Rightarrow> 'a list \<Rightarrow> 'a list" where
  "deleteFirst P [] = []"
| "deleteFirst P (x # xs) = (if P x then xs else x # deleteFirst P xs)"

text \<open>
  \<^verbatim>\<open>Meeting.findByIdAndUpdate(id, req.body, { new: true, runValidators: true })\<close>: the id
  and the update are cast before the collection is read; the result is the updated
  document, or null when no document has the id. The update is what the operators of the
  body do, with the plain paths of the body set on top (a plain key takes precedence over
  the same key inside \<^verbatim>\<open>$set\<close>), and the timestamp. MongoDB refuses an update that
  would change \<^verbatim>\<open>_id\<close>.
\<close>

definition Meeting_findByIdAndUpdate ::
  "lib \<Rightarrow> env \<Rightarrow> string \<Rightarrow> body \<Rightarrow> store \<Rightarrow> exn + meeting option \<times> store" where
  "Meeting_findByIdAndUpdate L E i b s =
     bindE (castId L (Some (JStr i))) (\<lambda>r.
     bindE (castUpdate L b) (\<lambda>u.
     bindE (updateOperators L b) (\<lambda>f.
       case meetingById r (meetings s) of
         None \<Rightarrow> Inr (None, s)
       | Some m \<Rightarrow>
           if m_id (applyUpdate u (now E) (f m)) \<noteq> m_id m then Inl ImmutableField
           else
             Inr (Some (applyUpdate u (now E) (f m)),
                  s\<lparr>meetings :=
                      updateFirst (\<lambda>x. Some (m_id x) = r)
                        (\<lambda>x. applyUpdate u (now E) (f m)) (meetings s)\<rparr>))))"

text \<open>\<^verbatim>\<open>Meeting.findByIdAndDelete(id)\<close>: the deleted document, or null.\<close>

definition Meeting_findByIdAndDelete ::
  "lib \<Rightarrow> string \<Rightarrow> store \<Rightarrow> exn + meeting option \<times> store" where
  "Meeting_findByIdAndDelete L i s =
     bindE (castId L (Some (JStr i))) (\<lambda>r.
       case meetingById r (meetings s) of
         None \<Rightarrow> Inr (None, s)
       | Some m \<Rightarrow> Inr (Some m, s\<lparr>meetings := deleteFirst (\<lambda>x. Some (m_id x) = r) (meetings s)\<rparr>))"

section \<open>Handlers\<close>

text \<open>
  Every handler body is one \<^verbatim>\<open>try\<close> block whose \<^verbatim>\<open>catch\<close> answers 500 with the
  message of what was thrown. Nothing is thrown after a write, so the store is then the
  one the request found.
\<close>

definition catch500 :: "store \<Rightarrow> exn + response \<times> store \<Rightarrow> response \<times> store" where
  "catch500 s r =
     (case r of Inl e \<Rightarrow> (\<lparr>status = 500, payload = ErrorMessage e\<rparr>, s) | Inr x \<Rightarrow> x)"

text \<open>\<^verbatim>\<open>app.get('/')\<close> (lines 106-108).\<close>

definition health :: "store \<Rightarrow> response \<times> store" where
  "health s = (\<lparr>status = 200, payload = Message ''Meetings API Service is running!''\<rparr>, s)"

text \<open>\<^verbatim>\<open>app.get('/api/users')\<close> (lines 111-118): newest first.\<close>

definition getUsers :: "store \<Rightarrow> response \<times> store" where
  "getUsers s =
     (\<lparr>status = 200, payload = UsersJson (sort_key (\<lambda>u. - u_createdAt u) (users s))\<rparr>, s)"

text \<open>
  \<^verbatim>\<open>app.post('/api/users')\<close> (lines 120-132): the only handler whose \<^verbatim>\<open>catch\<close> looks at
  what was thrown.
\<close>

definition postUser :: "lib \<Rightarrow> env \<Rightarrow> body \<Rightarrow> store \<Rightarrow> response \<times> store" where
  "postUser L E b =
     handleValidationErrors (validateUser L b) (\<lambda>s.
       case bindE (newUser L E b) (\<lambda>u. bindE (insertUser u s) (\<lambda>s'. Inr (u, s'))) of
         Inr (u, s') \<Rightarrow> (\<lparr>status = 201, payload = UserJson u\<rparr>, s')
       | Inl e \<Rightarrow>
           if e = DuplicateKey then (\<lparr>status = 400, payload = Error ''Email already exists''\<rparr>, s)
           else (\<lparr>status = 500, payload = ErrorMessage e\<rparr>, s))"

text \<open>\<^verbatim>\<open>app.get('/api/users/:id')\<close> (lines 134-144).\<close>

definition getUser :: "lib \<Rightarrow> string \<Rightarrow> store \<Rightarrow> response \<times> store" where
  "getUser L i s =
     catch500 s
       (bindE (User_findById L (Some (JStr i)) s) (\<lambda>user.
          case user of
            None \<Rightarrow> Inr (\<lparr>status = 404, payload = Error ''User not found''\<rparr>, s)
          | Some u \<Rightarrow> Inr (\<lparr>status = 200, payload = UserJson u\<rparr>, s)))"

text \<open>\<^verbatim>\<open>app.get('/api/meetings')\<close> (lines 147-157).\<close>

definition getMeetings :: "store \<Rightarrow> response \<times> store" where
  "getMeetings s =
     (\<lparr>status = 200,
       payload = MeetingsJson (map (populate s) (sort_key startDate (meetings s)))\<rparr>, s)"

text \<open>\<^verbatim>\<open>app.get('/api/meetings/:id')\<close> (lines 159-172).\<close>

definition getMeeting :: "lib \<Rightarrow> string \<Rightarrow> store \<Rightarrow> response \<times> store" where
  "getMeeting L i s =
     catch500 s
       (bindE (Meeting_findById L (Some (JStr i)) s) (\<lambda>meeting.
          case meeting of
            None \<Rightarrow> Inr (\<lparr>status = 404, payload = Error ''Meeting not found''\<rparr>, s)
          | Some m \<Rightarrow> Inr (\<lparr>status = 200, payload = MeetingJson (populate s m)\<rparr>, s)))"

text \<open>
  The three checks that open both write handlers, lines 177-193 and again 212-228.
  A comparison of two dates compares their time values and is false when either is NaN.
\<close>

definition startNotBeforeEnd :: "lib \<Rightarrow> body \<Rightarrow> bool" where
  "startNotBeforeEnd L b =
     (case newDate L (b ''startDate'') of
        None \<Rightarrow> False
      | Some sd \<Rightarrow> (case newDate L (b ''endDate'') of None \<Rightarrow> False | Some ed \<Rightarrow> sd \<ge> ed))"

text \<open>
  \<^verbatim>\<open>req.body.attendees && req.body.attendees.length > 0\<close>, for the values that pass the
  validation middleware: an absent field is falsy and an array is truthy.
\<close>

definition attendeesToCheck :: "body \<Rightarrow> json list option" where
  "attendeesToCheck b =
     (case b ''attendees'' of
        Some (JArr xs) \<Rightarrow> if length xs > 0 then Some xs else None
      | _ \<Rightarrow> None)"

definition checkBody :: "lib \<Rightarrow> body \<Rightarrow> store \<Rightarrow> exn + string option" where
  "checkBody L b s =
     (if startNotBeforeEnd L b then Inr (Some ''Start date must be before end date'')
      else
        bindE (User_findById L (b ''organizer'') s) (\<lambda>organizer.
          case organizer of
            None \<Rightarrow> Inr (Some ''Organizer not found'')
          | Some u \<Rightarrow>
              (case attendeesToCheck b of
                 None \<Rightarrow> Inr None
               | Some xs \<Rightarrow>
                   bindE (User_countDocuments L xs s) (\<lambda>attendeeCount.
                     if attendeeCount \<noteq> length xs
                     then Inr (Some ''One or more attendees not found'')
                     else Inr None))))"

text \<open>\<^verbatim>\<open>app.post('/api/meetings')\<close> (lines 174-207).\<close>

definition postMeeting :: "lib \<Rightarrow> env \<Rightarrow> body \<Rightarrow> store \<Rightarrow> response \<times> store" where
  "postMeeting L E b =
     handleValidationErrors (validateMeeting L b) (\<lambda>s.
       catch500 s
         (bindE (checkBody L b s) (\<lambda>failed.
            case failed of
              Some msg \<Rightarrow> Inr (\<lparr>status = 400, payload = Error msg\<rparr>, s)
            | None \<Rightarrow>
                bindE (newMeeting L E b) (\<lambda>meeting.
                bindE (insertMeeting meeting s) (\<lambda>s'.
                  Inr (\<lparr>status = 201,
                        payload =
                          (case meetingById (Some (m_id meeting)) (meetings s') of
                             None \<Rightarrow> NullJson
                           | Some m \<Rightarrow> MeetingJson (populate s' m))\<rparr>, s'))))))"

text \<open>\<^verbatim>\<open>app.put('/api/meetings/:id')\<close> (lines 209-246).\<close>

definition putMeeting :: "lib \<Rightarrow> env \<Rightarrow> string \<Rightarrow> body \<Rightarrow> store \<Rightarrow> response \<times> store" where
  "putMeeting L E i b =
     handleValidationErrors (validateMeeting L b) (\<lambda>s.
       catch500 s
         (bindE (checkBody L b s) (\<lambda>failed.
            case failed of
              Some msg \<Rightarrow> Inr (\<lparr>status = 400, payload = Error msg\<rparr>, s)
            | None \<Rightarrow>
                bindE (Meeting_findByIdAndUpdate L E i b s) (\<lambda>(meeting, s').
                  case meeting of
                    None \<Rightarrow> Inr (\<lparr>status = 404, payload = Error ''Meeting not found''\<rparr>, s')
                  | Some m \<Rightarrow> Inr (\<lparr>status = 200, payload = MeetingJson (populate s' m)\<rparr>, s')))))"

text \<open>\<^verbatim>\<open>app.delete('/api/meetings/:id')\<close> (lines 248-258).\<close>

definition deleteMeeting :: "lib \<Rightarrow> string \<Rightarrow> store \<Rightarrow> response \<times> store" where
  "deleteMeeting L i s =
     catch500 s
       (bindE (Meeting_findByIdAndDelete L i s) (\<lambda>(meeting, s').
          case meeting of
            None \<Rightarrow> Inr (\<lparr>status = 404, payload = Error ''Meeting not found''\<rparr>, s')
          | Some m \<Rightarrow> Inr (\<lparr>status = 200, payload = Message ''Meeting deleted successfully''\<rparr>, s')))"

text \<open>
  \<^verbatim>\<open>app.get('/api/users/:userId/meetings')\<close> (lines 261-285). The filter
  \<^verbatim>\<open>{ $or: [{ organizer: userId }, { attendees: userId }] }\<close> selects the meetings whose
  organizer is the user or whose attendees array holds the user. Mongoose casts
  \<^verbatim>\<open>userId\<close> in the filter as it did in \<^verbatim>\<open>findById\<close>, so the id compared is the
  id under which the user was found. The sort is by \<open>startDate\<close>; meetings with equal
  starts come in some order, here the one of the collection.
\<close>

definition involves :: "string \<Rightarrow> meeting \<Rightarrow> bool" where
  "involves i m \<longleftrightarrow> organizer m = i \<or> Some i \<in> set (attendees m)"

definition getUserMeetings :: "lib \<Rightarrow> string \<Rightarrow> store \<Rightarrow> response \<times> store" where
  "getUserMeetings L userId s =
     catch500 s
       (bindE (User_findById L (Some (JStr userId)) s) (\<lambda>user.
          case user of
            None \<Rightarrow> Inr (\<lparr>status = 404, payload = Error ''User not found''\<rparr>, s)
          | Some u \<Rightarrow>
              Inr (\<lparr>status = 200,
                    payload =
                      MeetingsJson
                        (map (populate s)
                           (sort_key startDate (filter (involves (u_id u)) (meetings s))))\<rparr>, s)))"

text \<open>
  \<^verbatim>\<open>app.get('/api/meetings/upcoming')\<close> (lines 288-303), with \<^verbatim>\<open>new Date()\<close> read
  once, from the environment.
\<close>

definition getUpcoming :: "env \<Rightarrow> store \<Rightarrow> response \<times> store" where
  "getUpcoming E s =
     (\<lparr>status = 200,
       payload =
         MeetingsJson
           (map (populate s)
              (take 10 (sort_key startDate (filter (\<lambda>m. startDate m \<ge> now E) (meetings s)))))\<rparr>, s)"

section \<open>Routing\<close>

text \<open>
  Express tries the routes in the order in which the source registers them and runs the
  first whose method and path pattern match the request; \<^verbatim>\<open>:name\<close> matches one
  non-empty path segment. No handler of the source passes a request on, so the first
  match answers. A path is given by its segments: \<^verbatim>\<open>/api/users\<close> is
  \<open>[''api'', ''users'']\<close>. (Express also accepts other letter case and a trailing
  slash; the segments are taken as already normalised.)
\<close>

datatype segment = Lit string | Param

fun matchPath :: "segment list \<Rightarrow> string list \<Rightarrow> string list option" where
  "matchPath [] [] = Some []"
| "matchPath (Lit l # ps) (x # xs) = (if l = x then matchPath ps xs else None)"
| "matchPath (Param # ps) (x # xs) =
     (if x = [] then None else map_option ((#) x) (matchPath ps xs))"
| "matchPath ps xs = None"

datatype endpoint =
    Health | ListUsers | CreateUser | ReadUser | ListMeetings | ReadMeeting
  | CreateMeeting | UpdateMeeting | DeleteMeeting | UserMeetings | Upcoming

definition routes :: "(http_method \<times> segment list \<times> endpoint) list" where
  "routes =
     [(GET, [], Health),
      (GET, [Lit ''api'', Lit ''users''], ListUsers),
      (POST, [Lit ''api'', Lit ''users''], CreateUser),
      (GET, [Lit ''api'', Lit ''users'', Param], ReadUser),
      (GET, [Lit ''api'', Lit ''meetings''], ListMeetings),
      (GET, [Lit ''api'', Lit ''meetings'', Param], ReadMeeting),
      (POST, [Lit ''api'', Lit ''meetings''], CreateMeeting),
      (PUT, [Lit ''api'', Lit ''meetings'', Param], UpdateMeeting),
      (DELETE, [Lit ''api'', Lit ''meetings'', Param], DeleteMeeting),
      (GET, [Lit ''api'', Lit ''users'', Param, Lit ''meetings''], UserMeetings),
      (GET, [Lit ''api'', Lit ''meetings'', Lit ''upcoming''], Upcoming)]"

fun findRoute ::
  "(http_method \<times> segment list \<times> endpoint) list \<Rightarrow> request \<Rightarrow> (endpoint \<times> string list) option" where
  "findRoute [] r = None"
| "findRoute ((m, p, e) # rs) r =
     (if m = req_method r
      then (case matchPath p (req_path r) of None \<Rightarrow> findRoute rs r | Some ps \<Rightarrow> Some (e, ps))
      else findRoute rs r)"

text \<open>A route with one parameter reads it as \<^verbatim>\<open>req.params.id\<close> (or \<^verbatim>\<open>userId\<close>).\<close>

definition param :: "string list \<Rightarrow> string" where
  "param ps = (case ps of [] \<Rightarrow> [] | p # _ \<Rightarrow> p)"

definition runEndpoint ::
  "lib \<Rightarrow> env \<Rightarrow> endpoint \<Rightarrow> string list \<Rightarrow> body \<Rightarrow> store \<Rightarrow> response \<times> store" where
  "runEndpoint L E e ps b s =
     (case e of
        Health \<Rightarrow> health s
      | ListUsers \<Rightarrow> getUsers s
      | CreateUser \<Rightarrow> postUser L E b s
      | ReadUser \<Rightarrow> getUser L (param ps) s
      | ListMeetings \<Rightarrow> getMeetings s
      | ReadMeeting \<Rightarrow> getMeeting L (param ps) s
      | CreateMeeting \<Rightarrow> postMeeting L E b s
      | UpdateMeeting \<Rightarrow> putMeeting L E (param ps) b s
      | DeleteMeeting \<Rightarrow> deleteMeeting L (param ps) s
      | UserMeetings \<Rightarrow> getUserMeetings L (param ps) s
      | Upcoming \<Rightarrow> getUpcoming E s)"

text \<open>The application: the first matching route, or the 404 handler of lines 312-314.\<close>

definition app :: "lib \<Rightarrow> env \<Rightarrow> request \<Rightarrow> store \<Rightarrow> response \<times> store" where
  "app L E r s =
     (case findRoute routes r of
        None \<Rightarrow> (\<lparr>status = 404, payload = Error ''Route not found''\<rparr>, s)
      | Some (e, ps) \<Rightarrow> runEndpoint L E e ps (req_body r) s)"

text \<open>A run of the service: one environment and one request per step.\<close>

fun serve :: "lib \<Rightarrow> (env \<times> request) list \<Rightarrow> store \<Rightarrow> store" where
  "serve L [] s = s"
| "serve L ((E, r) # rs) s = serve L rs (snd (app L E r s))"

definition emptyStore :: store where
  "emptyStore = \<lparr>users = [], meetings = []\<rparr>"

section \<open>A library instance for examples\<close>

text \<open>
  To run the handlers on concrete requests the library parameter is instantiated with
  \<open>sampleLib\<close>. On the plain values that the examples below use it answers as the real
  libraries do: a string of 24 hexadecimal digits is an object id and strings such as
  \<^verbatim>\<open>abc\<close> or \<^verbatim>\<open>upcoming\<close> are not, the three listed ISO-8601 strings are dates
  with the given time values, JSON null casts to null, and a string without surrounding
  blanks or capitals casts to itself. It is not meant to agree with them on other values.
\<close>

definition isHex24 :: "string \<Rightarrow> bool" where
  "isHex24 x \<longleftrightarrow> length x = 24 \<and> list_all (\<lambda>c. c \<in> set ''0123456789abcdef'') x"

definition sampleDate :: "string \<Rightarrow> int option" where
  "sampleDate x =
     (if x = ''2024-02-01T09:00:00Z'' then Some 1706778000000
      else if x = ''2024-02-01T09:30:00Z'' then Some 1706779800000
      else if x = ''2024-02-01T10:00:00Z'' then Some 1706781600000
      else None)"

fun sampleString :: "json \<Rightarrow> string cast" where
  "sampleString (JStr x) = CastTo x"
| "sampleString JNull = CastNull"
| "sampleString v = CastFails"

fun sampleObjectId :: "json \<Rightarrow> string cast" where
  "sampleObjectId (JStr x) = (if isHex24 x then CastTo x else CastFails)"
| "sampleObjectId JNull = CastNull"
| "sampleObjectId v = CastFails"

fun sampleCastDate :: "json \<Rightarrow> int cast" where
  "sampleCastDate (JStr x) = (case sampleDate x of None \<Rightarrow> CastFails | Some t \<Rightarrow> CastTo t)"
| "sampleCastDate JNull = CastNull"
| "sampleCastDate v = CastFails"

fun sampleText :: "json option \<Rightarrow> string" where
  "sampleText (Some (JStr x)) = x"
| "sampleText v = []"

text \<open>
  Of the update operators the instance knows \<^verbatim>\<open>$push\<close> of one id onto \<open>attendees\<close>,
  which appends the id to the array.
\<close>

fun samplePush :: "json option \<Rightarrow> exn + (meeting \<Rightarrow> meeting)" where
  "samplePush None = Inr (\<lambda>m. m)"
| "samplePush (Some (JObj [(k, JStr x)])) =
     (if k = ''attendees'' \<and> isHex24 x then Inr (\<lambda>m. m\<lparr>attendees := attendees m @ [Some x]\<rparr>)
      else Inl CastError)"
| "samplePush (Some v) = Inl CastError"

definition sampleLib :: lib where
  "sampleLib =
     \<lparr>notEmpty = (\<lambda>v. sampleText v \<noteq> []),
      isISO8601 = (\<lambda>v. sampleDate (sampleText v) \<noteq> None),
      isMongoId = (\<lambda>v. isHex24 (sampleText v)),
      isEmail = (\<lambda>v. CHR ''@'' \<in> set (sampleText v)),
      newDate = (\<lambda>v. sampleDate (sampleText v)),
      castString = sampleString,
      castDate = sampleCastDate,
      castObjectId = sampleObjectId,
      trim = (\<lambda>x. x),
      toLowerCase = (\<lambda>x. x),
      updateOperators = (\<lambda>b. samplePush (b ''$push''))\<rparr>"

definition alice :: user where
  "alice = \<lparr>u_id = ''64b7f0c2a1b2c3d4e5f60001'', u_name = ''Alice'',
             u_email = ''alice@example.com'', u_createdAt = 1700000000000,
             u_updatedAt = 1700000000000\<rparr>"

definition bob :: user where
  "bob = \<lparr>u_id = ''64b7f0c2a1b2c3d4e5f60002'', u_name = ''Bob'',
           u_email = ''bob@example.com'', u_createdAt = 1700000001000,
           u_updatedAt = 1700000001000\<rparr>"

definition standup :: meeting where
  "standup = \<lparr>m_id = ''64b7f0c2a1b2c3d4e5f6a001'', title = ''Standup'', description = None,
               startDate = 1706778000000, endDate = 1706779800000, location = None,
               organizer = ''64b7f0c2a1b2c3d4e5f60001'',
               attendees = [Some ''64b7f0c2a1b2c3d4e5f60002''],
               m_createdAt = 1700000002000, m_updatedAt = 1700000002000\<rparr>"

definition review :: meeting where
  "review = \<lparr>m_id = ''64b7f0c2a1b2c3d4e5f6a002'', title = ''Review'', description = None,
              startDate = 1706779800000, endDate = 1706781600000, location = None,
              organizer = ''64b7f0c2a1b2c3d4e5f60002'', attendees = [],
              m_createdAt = 1700000003000, m_updatedAt = 1700000003000\<rparr>"

definition sampleStore :: store where
  "sampleStore = \<lparr>users = [alice, bob], meetings = [standup, review]\<rparr>"

definition sampleEnv :: env where
  "sampleEnv = \<lparr>now = 1700000004000, newId = ''64b7f0c2a1b2c3d4e5f6a003''\<rparr>"

text \<open>
  The body of the example in the README, with Alice as organizer; the attendees are
  added per example.
\<close>

definition sampleBody :: body where
  "sampleBody =
     [''title'' \<mapsto> JStr ''Standup'',
      ''startDate'' \<mapsto> JStr ''2024-02-01T09:00:00Z'',
      ''endDate'' \<mapsto> JStr ''2024-02-01T09:30:00Z'',
      ''organizer'' \<mapsto> JStr ''64b7f0c2a1b2c3d4e5f60001'']"

definition withAttendees :: "json list \<Rightarrow> body \<Rightarrow> body" where
  "withAttendees xs b = b(''attendees'' \<mapsto> JArr xs)"

text \<open>
  A run from the empty store: Alice and Bob register, a meeting that lists Bob twice is
  posted, then the same meeting with Bob listed once, and then an update of that meeting
  whose body has no \<open>attendees\<close> field and pushes Bob onto the array.
\<close>

definition sampleRun :: "(env \<times> request) list" where
  "sampleRun =
     [(\<lparr>now = 1700000000000, newId = ''64b7f0c2a1b2c3d4e5f60001''\<rparr>,
       \<lparr>req_method = POST, req_path = [''api'', ''users''],
        req_body = [''name'' \<mapsto> JStr ''Alice'', ''email'' \<mapsto> JStr ''alice@example.com'']\<rparr>),
      (\<lparr>now = 1700000001000, newId = ''64b7f0c2a1b2c3d4e5f60002''\<rparr>,
       \<lparr>req_method = POST, req_path = [''api'', ''users''],
        req_body = [''name'' \<mapsto> JStr ''Bob'', ''email'' \<mapsto> JStr ''bob@example.com'']\<rparr>),
      (\<lparr>now = 1700000002000, newId = ''64b7f0c2a1b2c3d4e5f6a001''\<rparr>,
       \<lparr>req_method = POST, req_path = [''api'', ''meetings''],
        req_body =
          withAttendees [JStr ''64b7f0c2a1b2c3d4e5f60002'', JStr ''64b7f0c2a1b2c3d4e5f60002'']
            sampleBody\<rparr>),
      (\<lparr>now = 1700000003000, newId = ''64b7f0c2a1b2c3d4e5f6a002''\<rparr>,
       \<lparr>req_method = POST, req_path = [''api'', ''meetings''],
        req_body = withAttendees [JStr ''64b7f0c2a1b2c3d4e5f60002''] sampleBody\<rparr>),
      (\<lparr>now = 1700000004000, newId = ''64b7f0c2a1b2c3d4e5f6a003''\<rparr>,
       \<lparr>req_method = PUT, req_path = [''api'', ''meetings'', ''64b7f0c2a1b2c3d4e5f6a002''],
        req_body =
          sampleBody(''$push'' \<mapsto> JObj [(''attendees'', JStr ''64b7f0c2a1b2c3d4e5f60002'')])\<rparr>)]"

section \<open>An invariant of the store\<close>

text \<open>MongoDB keeps \<^verbatim>\<open>_id\<close> unique within a collection.\<close>

definition uniqueIds :: "store \<Rightarrow> bool" where
  "uniqueIds s \<longleftrightarrow> distinct (map u_id (users s)) \<and> distinct (map m_id (meetings s))"

section \<open>Basic facts\<close>

lemma bindE_simps [simp]:
  "bindE (Inl e) f = Inl e"
  "bindE (Inr x) f = f x"
  by (simp_all add: bindE_def)

lemma bindE_eq_Inr:
  "bindE m f = Inr y \<longleftrightarrow> (\<exists>x. m = Inr x \<and> f x = Inr y)"
  by (cases m) simp_all

text \<open>Which handler answers which request.\<close>

lemma route_read_user:
  "i \<noteq> [] \<Longrightarrow>
   app L E \<lparr>req_method = GET, req_path = [''api'', ''users'', i], req_body = b\<rparr> s
     = getUser L i s"
  by (simp add: app_def routes_def runEndpoint_def param_def)

lemma route_read_meeting:
  "i \<noteq> [] \<Longrightarrow>
   app L E \<lparr>req_method = GET, req_path = [''api'', ''meetings'', i], req_body = b\<rparr> s
     = getMeeting L i s"
  by (simp add: app_def routes_def runEndpoint_def param_def)

lemma route_create_meeting:
  "app L E \<lparr>req_method = POST, req_path = [''api'', ''meetings''], req_body = b\<rparr> s
     = postMeeting L E b s"
  by (simp add: app_def routes_def runEndpoint_def param_def)

lemma route_update_meeting:
  "i \<noteq> [] \<Longrightarrow>
   app L E \<lparr>req_method = PUT, req_path = [''api'', ''meetings'', i], req_body = b\<rparr> s
     = putMeeting L E i b s"
  by (simp add: app_def routes_def runEndpoint_def param_def)

lemma route_delete_meeting:
  "i \<noteq> [] \<Longrightarrow>
   app L E \<lparr>req_method = DELETE, req_path = [''api'', ''meetings'', i], req_body = b\<rparr> s
     = deleteMeeting L i s"
  by (simp add: app_def routes_def runEndpoint_def param_def)

lemma route_user_meetings:
  "i \<noteq> [] \<Longrightarrow>
   app L E \<lparr>req_method = GET, req_path = [''api'', ''users'', i, ''meetings''], req_body = b\<rparr> s
     = getUserMeetings L i s"
  by (simp add: app_def routes_def runEndpoint_def param_def)

lemma getMeeting_cast_fails:
  "castObjectId L (JStr i) = CastFails \<Longrightarrow>
   getMeeting L i s = (\<lparr>status = 500, payload = ErrorMessage CastError\<rparr>, s)"
  by (simp add: getMeeting_def Meeting_findById_def castId_def catch500_def)

lemma getUser_cast_fails:
  "castObjectId L (JStr i) = CastFails \<Longrightarrow>
   getUser L i s = (\<lparr>status = 500, payload = ErrorMessage CastError\<rparr>, s)"
  by (simp add: getUser_def User_findById_def castId_def catch500_def)

section \<open>Upcoming meetings\<close>

text \<open>
  The handler of lines 288-303 does what its comment says: at most ten meetings, none
  starting before \<open>now\<close>, in ascending order of start.
\<close>

lemma sorted_take_sort_key:
  "sorted (map f (take n (sort_key f xs)))"
proof -
  have "sorted (take n (map f (sort_key f xs)))"
    by (rule sorted_wrt_take) simp
  then show ?thesis by (simp only: take_map)
qed

lemma getUpcoming_result:
  "\<exists>ms. getUpcoming E s = (\<lparr>status = 200, payload = MeetingsJson (map (populate s) ms)\<rparr>, s) \<and>
        length ms \<le> 10 \<and> (\<forall>m \<in> set ms. now E \<le> startDate m) \<and> sorted (map startDate ms)"
proof -
  let ?ms = "take 10 (sort_key startDate (filter (\<lambda>m. startDate m \<ge> now E) (meetings s)))"
  have "set ?ms \<subseteq> set (sort_key startDate (filter (\<lambda>m. startDate m \<ge> now E) (meetings s)))"
    by (rule set_take_subset)
  then have a: "\<forall>m \<in> set ?ms. now E \<le> startDate m"
    by auto
  have b: "sorted (map startDate ?ms)"
    by (rule sorted_take_sort_key)
  have c: "length ?ms \<le> 10" by simp
  have d: "getUpcoming E s = (\<lparr>status = 200, payload = MeetingsJson (map (populate s) ?ms)\<rparr>, s)"
    by (simp add: getUpcoming_def)
  from a b c d show ?thesis by blast
qed

text \<open>
  Claim C1 says that every request \<^verbatim>\<open>GET /api/meetings/upcoming\<close> is answered 200 with at
  most ten upcoming meetings in ascending order. The request never reaches that handler:
  the route \<^verbatim>\<open>/api/meetings/:id\<close> is registered first (line 159, before line 288) and
  takes the request with \<^verbatim>\<open>id = "upcoming"\<close>. Whenever \<^verbatim>\<open>upcoming\<close> is not an object
  id, the lookup throws and the answer is 500, whatever the store holds.
\<close>

theorem upcoming_is_answered_by_the_id_route:
  "app L E \<lparr>req_method = GET, req_path = [''api'', ''meetings'', ''upcoming''], req_body = b\<rparr> s
     = getMeeting L ''upcoming'' s \<and>
   (castObjectId L (JStr ''upcoming'') = CastFails \<longrightarrow>
    app L E \<lparr>req_method = GET, req_path = [''api'', ''meetings'', ''upcoming''], req_body = b\<rparr> s
      = (\<lparr>status = 500, payload = ErrorMessage CastError\<rparr>, s))"
  using route_read_meeting [of "''upcoming''" L E b s]
    getMeeting_cast_fails [of L "''upcoming''" s]
  by simp

theorem upcoming_is_answered_by_the_id_route_witness:
  "castObjectId sampleLib (JStr ''upcoming'') = CastFails \<and>
   app sampleLib sampleEnv
     \<lparr>req_method = GET, req_path = [''api'', ''meetings'', ''upcoming''], req_body = Map.empty\<rparr>
     sampleStore
     = (\<lparr>status = 500, payload = ErrorMessage CastError\<rparr>, sampleStore)"
proof -
  have c: "castObjectId sampleLib (JStr ''upcoming'') = CastFails"
    by (simp add: sampleLib_def isHex24_def)
  from c upcoming_is_answered_by_the_id_route [of sampleLib sampleEnv Map.empty sampleStore]
  show ?thesis by blast
qed

section \<open>The two write handlers\<close>

lemma postMeeting_validation_fails:
  "validateMeeting L b \<noteq> [] \<Longrightarrow>
   postMeeting L E b s = (\<lparr>status = 400, payload = Errors (validateMeeting L b)\<rparr>, s)"
  by (simp add: postMeeting_def handleValidationErrors_def)

lemma postMeeting_check_fails:
  "validateMeeting L b = [] \<Longrightarrow> checkBody L b s = Inr (Some msg) \<Longrightarrow>
   postMeeting L E b s = (\<lparr>status = 400, payload = Error msg\<rparr>, s)"
  by (simp add: postMeeting_def handleValidationErrors_def catch500_def)

lemma postMeeting_unchanged:
  "status (fst (postMeeting L E b s)) \<noteq> 201 \<Longrightarrow> snd (postMeeting L E b s) = s"
  by (auto simp: postMeeting_def handleValidationErrors_def catch500_def bindE_def
      split: sum.splits option.splits)

lemma putMeeting_validation_fails:
  "validateMeeting L b \<noteq> [] \<Longrightarrow>
   putMeeting L E i b s = (\<lparr>status = 400, payload = Errors (validateMeeting L b)\<rparr>, s)"
  by (simp add: putMeeting_def handleValidationErrors_def)

lemma putMeeting_check_fails:
  "validateMeeting L b = [] \<Longrightarrow> checkBody L b s = Inr (Some msg) \<Longrightarrow>
   putMeeting L E i b s = (\<lparr>status = 400, payload = Error msg\<rparr>, s)"
  by (simp add: putMeeting_def handleValidationErrors_def catch500_def)

lemma putMeeting_unchanged:
  "status (fst (putMeeting L E i b s)) \<noteq> 200 \<Longrightarrow> snd (putMeeting L E i b s) = s"
  by (auto simp: putMeeting_def handleValidationErrors_def catch500_def bindE_def
      Meeting_findByIdAndUpdate_def
      split: sum.splits option.splits prod.splits if_splits)

lemma checkBody_dates:
  "startNotBeforeEnd L b \<Longrightarrow> checkBody L b s = Inr (Some ''Start date must be before end date'')"
  by (simp add: checkBody_def)

lemma startNotBeforeEnd_parsed:
  "newDate L (b ''startDate'') = Some sd \<Longrightarrow> newDate L (b ''endDate'') = Some ed \<Longrightarrow>
   startNotBeforeEnd L b \<longleftrightarrow> ed \<le> sd"
  by (simp add: startNotBeforeEnd_def)

lemma postMeeting_201_checked:
  "status (fst (postMeeting L E b s)) = 201 \<Longrightarrow> validateMeeting L b = [] \<and> checkBody L b s = Inr None"
  by (auto simp: postMeeting_def handleValidationErrors_def catch500_def bindE_def
      split: sum.splits option.splits if_splits)

lemma putMeeting_200_checked:
  "status (fst (putMeeting L E i b s)) = 200 \<Longrightarrow> validateMeeting L b = [] \<and> checkBody L b s = Inr None"
  by (auto simp: putMeeting_def handleValidationErrors_def catch500_def bindE_def
      split: sum.splits option.splits if_splits prod.splits)

lemma checkBody_passes_dates:
  "checkBody L b s = Inr None \<Longrightarrow> \<not> startNotBeforeEnd L b"
  by (auto simp: checkBody_def)

text \<open>
  Claim C5: on create and on full update of a meeting whose two dates parse, a start that
  is not strictly before the end (equal dates included) is answered 400 and nothing is
  written; when the body passes the validation middleware the error is the
  start-before-end one. A create that answers 201, or an update that answers 200, had its
  start strictly before its end.
\<close>

theorem start_must_precede_end:
  assumes sd: "newDate L (b ''startDate'') = Some sd"
    and ed: "newDate L (b ''endDate'') = Some ed"
  shows "(ed \<le> sd \<longrightarrow>
            status (fst (postMeeting L E b s)) = 400 \<and> snd (postMeeting L E b s) = s \<and>
            status (fst (putMeeting L E i b s)) = 400 \<and> snd (putMeeting L E i b s) = s \<and>
            (validateMeeting L b = [] \<longrightarrow>
               payload (fst (postMeeting L E b s)) = Error ''Start date must be before end date'' \<and>
               payload (fst (putMeeting L E i b s)) = Error ''Start date must be before end date'')) \<and>
         (status (fst (postMeeting L E b s)) = 201 \<longrightarrow> sd < ed) \<and>
         (status (fst (putMeeting L E i b s)) = 200 \<longrightarrow> sd < ed)"
proof (intro conjI impI)
  assume le: "ed \<le> sd"
  then have bad: "startNotBeforeEnd L b"
    using sd ed by (simp add: startNotBeforeEnd_parsed)
  show "status (fst (postMeeting L E b s)) = 400"
    using postMeeting_validation_fails [of L b E s]
      postMeeting_check_fails [OF _ checkBody_dates [OF bad], of E s]
    by (cases "validateMeeting L b = []") simp_all
  then show "snd (postMeeting L E b s) = s"
    using postMeeting_unchanged [of L E b s] by simp
  show "status (fst (putMeeting L E i b s)) = 400"
    using putMeeting_validation_fails [of L b E i s]
      putMeeting_check_fails [OF _ checkBody_dates [OF bad], of E i s]
    by (cases "validateMeeting L b = []") simp_all
  then show "snd (putMeeting L E i b s) = s"
    using putMeeting_unchanged [of L E i b s] by simp
  assume v: "validateMeeting L b = []"
  show "payload (fst (postMeeting L E b s)) = Error ''Start date must be before end date''"
    using postMeeting_check_fails [OF v checkBody_dates [OF bad], of E s] by simp
  show "payload (fst (putMeeting L E i b s)) = Error ''Start date must be before end date''"
    using putMeeting_check_fails [OF v checkBody_dates [OF bad], of E i s] by simp
next
  assume "status (fst (postMeeting L E b s)) = 201"
  then have "\<not> startNotBeforeEnd L b"
    using postMeeting_201_checked checkBody_passes_dates by blast
  then show "sd < ed"
    using sd ed by (simp add: startNotBeforeEnd_parsed)
next
  assume "status (fst (putMeeting L E i b s)) = 200"
  then have "\<not> startNotBeforeEnd L b"
    using putMeeting_200_checked checkBody_passes_dates by blast
  then show "sd < ed"
    using sd ed by (simp add: startNotBeforeEnd_parsed)
qed

theorem start_must_precede_end_witness:
  "newDate sampleLib ((sampleBody(''endDate'' \<mapsto> JStr ''2024-02-01T09:00:00Z'')) ''startDate'')
     = Some 1706778000000 \<and>
   newDate sampleLib ((sampleBody(''endDate'' \<mapsto> JStr ''2024-02-01T09:00:00Z'')) ''endDate'')
     = Some 1706778000000 \<and>
   validateMeeting sampleLib (sampleBody(''endDate'' \<mapsto> JStr ''2024-02-01T09:00:00Z'')) = [] \<and>
   status (fst (postMeeting sampleLib sampleEnv
      (sampleBody(''endDate'' \<mapsto> JStr ''2024-02-01T09:00:00Z'')) sampleStore)) = 400 \<and>
   payload (fst (postMeeting sampleLib sampleEnv
      (sampleBody(''endDate'' \<mapsto> JStr ''2024-02-01T09:00:00Z'')) sampleStore))
     = Error ''Start date must be before end date'' \<and>
   snd (postMeeting sampleLib sampleEnv
      (sampleBody(''endDate'' \<mapsto> JStr ''2024-02-01T09:00:00Z'')) sampleStore) = sampleStore \<and>
   status (fst (putMeeting sampleLib sampleEnv ''64b7f0c2a1b2c3d4e5f6a002''
      (sampleBody(''endDate'' \<mapsto> JStr ''2024-02-01T09:00:00Z'')) sampleStore)) = 400 \<and>
   snd (putMeeting sampleLib sampleEnv ''64b7f0c2a1b2c3d4e5f6a002''
      (sampleBody(''endDate'' \<mapsto> JStr ''2024-02-01T09:00:00Z'')) sampleStore) = sampleStore \<and>
   newDate sampleLib (sampleBody ''startDate'') = Some 1706778000000 \<and>
   newDate sampleLib (sampleBody ''endDate'') = Some 1706779800000 \<and>
   status (fst (postMeeting sampleLib sampleEnv sampleBody sampleStore)) = 201 \<and>
   status (fst (putMeeting sampleLib sampleEnv ''64b7f0c2a1b2c3d4e5f6a002'' sampleBody sampleStore)) = 200"
proof -
  let ?b = "sampleBody(''endDate'' \<mapsto> JStr ''2024-02-01T09:00:00Z'')"
  have s1: "newDate sampleLib (?b ''startDate'') = Some 1706778000000" by code_simp
  have e1: "newDate sampleLib (?b ''endDate'') = Some 1706778000000" by code_simp
  have v1: "validateMeeting sampleLib ?b = []" by code_simp
  have s2: "newDate sampleLib (sampleBody ''startDate'') = Some 1706778000000" by code_simp
  have e2: "newDate sampleLib (sampleBody ''endDate'') = Some 1706779800000" by code_simp
  have ok1: "status (fst (postMeeting sampleLib sampleEnv sampleBody sampleStore)) = 201"
    by code_simp
  have ok2: "status (fst (putMeeting sampleLib sampleEnv ''64b7f0c2a1b2c3d4e5f6a002'' sampleBody
      sampleStore)) = 200"
    by code_simp
  note t = start_must_precede_end [OF s1 e1, of sampleEnv sampleStore "''64b7f0c2a1b2c3d4e5f6a002''"]
  have le: "(1706778000000::int) \<le> 1706778000000" by simp
  from t le v1 s1 e1 s2 e2 ok1 ok2 show ?thesis by blast
qed

section \<open>Reading by id\<close>

lemma getUser_not_found_iff:
  "status (fst (getUser L i s)) = 404 \<longleftrightarrow>
     (\<exists>r. castId L (Some (JStr i)) = Inr r \<and> userById r (users s) = None)"
  by (auto simp: getUser_def User_findById_def catch500_def bindE_def
      split: sum.splits option.splits)

lemma getMeeting_not_found_iff:
  "status (fst (getMeeting L i s)) = 404 \<longleftrightarrow>
     (\<exists>r. castId L (Some (JStr i)) = Inr r \<and> meetingById r (meetings s) = None)"
  by (auto simp: getMeeting_def Meeting_findById_def catch500_def bindE_def
      split: sum.splits option.splits)

lemma castId_Inr:
  "castId L (Some j) = Inr r \<longleftrightarrow>
     (castObjectId L j = CastNull \<and> r = None) \<or> (\<exists>i. castObjectId L j = CastTo i \<and> r = Some i)"
  by (auto simp: castId_def split: cast.splits)

lemma find_None_ids: "find (\<lambda>x. f x = i) xs = None \<longleftrightarrow> i \<notin> set (map f xs)"
  by (auto simp: find_None_iff)

text \<open>
  Claim C9: for \<^verbatim>\<open>GET /api/users/:id\<close> and \<^verbatim>\<open>GET /api/meetings/:id\<close>, a path id that is
  not a syntactically valid store id (its cast to an object id throws) is answered 500
  through the handler's \<^verbatim>\<open>catch\<close>, never 404; a 404 is given only for an id that casts
  and matches no record.
\<close>

theorem invalid_path_id_is_500_not_404:
  "(castObjectId L (JStr i) = CastFails \<longrightarrow>
      getUser L i s = (\<lparr>status = 500, payload = ErrorMessage CastError\<rparr>, s) \<and>
      getMeeting L i s = (\<lparr>status = 500, payload = ErrorMessage CastError\<rparr>, s)) \<and>
   (status (fst (getUser L i s)) = 404 \<longrightarrow>
      castObjectId L (JStr i) \<noteq> CastFails \<and>
      (\<forall>j. castObjectId L (JStr i) = CastTo j \<longrightarrow> j \<notin> set (map u_id (users s)))) \<and>
   (status (fst (getMeeting L i s)) = 404 \<longrightarrow>
      castObjectId L (JStr i) \<noteq> CastFails \<and>
      (\<forall>j. castObjectId L (JStr i) = CastTo j \<longrightarrow> j \<notin> set (map m_id (meetings s))))"
proof (intro conjI impI allI)
  assume "castObjectId L (JStr i) = CastFails"
  then show "getUser L i s = (\<lparr>status = 500, payload = ErrorMessage CastError\<rparr>, s)"
    and "getMeeting L i s = (\<lparr>status = 500, payload = ErrorMessage CastError\<rparr>, s)"
    by (rule getUser_cast_fails, rule getMeeting_cast_fails)
next
  assume "status (fst (getUser L i s)) = 404"
  then obtain r where r: "castId L (Some (JStr i)) = Inr r" "userById r (users s) = None"
    unfolding getUser_not_found_iff by blast
  from r(1) show "castObjectId L (JStr i) \<noteq> CastFails"
    by (auto simp: castId_Inr)
  fix j assume "castObjectId L (JStr i) = CastTo j"
  with r show "j \<notin> set (map u_id (users s))"
    by (auto simp: castId_Inr userById_def find_None_iff)
next
  assume "status (fst (getMeeting L i s)) = 404"
  then obtain r where r: "castId L (Some (JStr i)) = Inr r" "meetingById r (meetings s) = None"
    unfolding getMeeting_not_found_iff by blast
  from r(1) show "castObjectId L (JStr i) \<noteq> CastFails"
    by (auto simp: castId_Inr)
  fix j assume "castObjectId L (JStr i) = CastTo j"
  with r show "j \<notin> set (map m_id (meetings s))"
    by (auto simp: castId_Inr meetingById_def find_None_iff)
qed

theorem invalid_path_id_is_500_not_404_witness:
  "castObjectId sampleLib (JStr ''not-an-id'') = CastFails \<and>
   getUser sampleLib ''not-an-id'' sampleStore
     = (\<lparr>status = 500, payload = ErrorMessage CastError\<rparr>, sampleStore) \<and>
   getMeeting sampleLib ''not-an-id'' sampleStore
     = (\<lparr>status = 500, payload = ErrorMessage CastError\<rparr>, sampleStore) \<and>
   status (fst (getUser sampleLib ''64b7f0c2a1b2c3d4e5f60009'' sampleStore)) = 404 \<and>
   castObjectId sampleLib (JStr ''64b7f0c2a1b2c3d4e5f60009'') = CastTo ''64b7f0c2a1b2c3d4e5f60009'' \<and>
   ''64b7f0c2a1b2c3d4e5f60009'' \<notin> set (map u_id (users sampleStore)) \<and>
   status (fst (getMeeting sampleLib ''64b7f0c2a1b2c3d4e5f60009'' sampleStore)) = 404 \<and>
   ''64b7f0c2a1b2c3d4e5f60009'' \<notin> set (map m_id (meetings sampleStore))"
proof -
  have c: "castObjectId sampleLib (JStr ''not-an-id'') = CastFails" by code_simp
  have u: "status (fst (getUser sampleLib ''64b7f0c2a1b2c3d4e5f60009'' sampleStore)) = 404"
    by code_simp
  have m: "status (fst (getMeeting sampleLib ''64b7f0c2a1b2c3d4e5f60009'' sampleStore)) = 404"
    by code_simp
  have v: "castObjectId sampleLib (JStr ''64b7f0c2a1b2c3d4e5f60009'') = CastTo ''64b7f0c2a1b2c3d4e5f60009''"
    by code_simp
  from c invalid_path_id_is_500_not_404 [of sampleLib "''not-an-id''" sampleStore]
    u m v invalid_path_id_is_500_not_404 [of sampleLib "''64b7f0c2a1b2c3d4e5f60009''" sampleStore]
  show ?thesis by blast
qed

section \<open>The order of the checks in an update\<close>

lemma User_findById_frame:
  "User_findById L v (s\<lparr>meetings := ms\<rparr>) = User_findById L v s"
  by (simp add: User_findById_def)

lemma User_countDocuments_frame:
  "User_countDocuments L xs (s\<lparr>meetings := ms\<rparr>) = User_countDocuments L xs s"
  by (simp add: User_countDocuments_def)

lemma checkBody_frame: "checkBody L b (s\<lparr>meetings := ms\<rparr>) = checkBody L b s"
  by (simp add: checkBody_def User_findById_frame User_countDocuments_frame
      cong: option.case_cong)

lemma checkBody_organizer:
  "\<not> startNotBeforeEnd L b \<Longrightarrow> User_findById L (b ''organizer'') s = Inr None \<Longrightarrow>
   checkBody L b s = Inr (Some ''Organizer not found'')"
  by (simp add: checkBody_def)

lemma checkBody_attendees:
  "\<not> startNotBeforeEnd L b \<Longrightarrow> User_findById L (b ''organizer'') s = Inr (Some u) \<Longrightarrow>
   attendeesToCheck b = Some xs \<Longrightarrow> User_countDocuments L xs s = Inr n \<Longrightarrow> n \<noteq> length xs \<Longrightarrow>
   checkBody L b s = Inr (Some ''One or more attendees not found'')"
  by (simp add: checkBody_def)

lemma putMeeting_400_iff:
  "status (fst (putMeeting L E i b s)) = 400 \<longleftrightarrow>
     validateMeeting L b \<noteq> [] \<or> (\<exists>msg. checkBody L b s = Inr (Some msg))"
  by (auto simp: putMeeting_def handleValidationErrors_def catch500_def bindE_def
      split: sum.splits option.splits prod.splits)

lemma putMeeting_400_frame:
  assumes "status (fst (putMeeting L E i b s)) = 400"
  shows "fst (putMeeting L E i b (s\<lparr>meetings := ms\<rparr>)) = fst (putMeeting L E i b s)"
proof (cases "validateMeeting L b = []")
  case False
  then show ?thesis by (simp add: putMeeting_validation_fails)
next
  case True
  with assms obtain msg where "checkBody L b s = Inr (Some msg)"
    by (auto simp: putMeeting_400_iff)
  with True show ?thesis
    by (simp add: putMeeting_check_fails checkBody_frame)
qed

lemma putMeeting_404:
  "status (fst (putMeeting L E i b s)) = 404 \<Longrightarrow>
   validateMeeting L b = [] \<and> checkBody L b s = Inr None \<and>
   (\<exists>r. castId L (Some (JStr i)) = Inr r \<and> meetingById r (meetings s) = None)"
  by (auto simp: putMeeting_def handleValidationErrors_def catch500_def bindE_def
      Meeting_findByIdAndUpdate_def
      split: sum.splits option.splits prod.splits if_splits)

text \<open>
  Claim C10: in \<^verbatim>\<open>PUT /api/meetings/:id\<close> the checks on the body (validation
  middleware, order of the dates, existence of the organizer, existence of the attendees)
  are decided before the meeting is looked up. A body that fails one of them is answered
  400 whatever the meetings collection holds, also when no meeting has the id; 404 is
  answered only when the body has passed every check and no meeting has the id; in both
  cases the store is unchanged.
\<close>

theorem put_checks_body_before_existence:
  "(validateMeeting L b \<noteq> [] \<longrightarrow>
      putMeeting L E i b s = (\<lparr>status = 400, payload = Errors (validateMeeting L b)\<rparr>, s)) \<and>
   (validateMeeting L b = [] \<and> startNotBeforeEnd L b \<longrightarrow>
      putMeeting L E i b s
        = (\<lparr>status = 400, payload = Error ''Start date must be before end date''\<rparr>, s)) \<and>
   (validateMeeting L b = [] \<and> \<not> startNotBeforeEnd L b \<and>
    User_findById L (b ''organizer'') s = Inr None \<longrightarrow>
      putMeeting L E i b s = (\<lparr>status = 400, payload = Error ''Organizer not found''\<rparr>, s)) \<and>
   (validateMeeting L b = [] \<and> \<not> startNotBeforeEnd L b \<and>
    User_findById L (b ''organizer'') s = Inr (Some u) \<and>
    attendeesToCheck b = Some xs \<and> User_countDocuments L xs s = Inr n \<and> n \<noteq> length xs \<longrightarrow>
      putMeeting L E i b s
        = (\<lparr>status = 400, payload = Error ''One or more attendees not found''\<rparr>, s)) \<and>
   (status (fst (putMeeting L E i b s)) = 400 \<longrightarrow>
      snd (putMeeting L E i b s) = s \<and>
      (\<forall>ms. fst (putMeeting L E i b (s\<lparr>meetings := ms\<rparr>)) = fst (putMeeting L E i b s))) \<and>
   (status (fst (putMeeting L E i b s)) = 404 \<longrightarrow>
      validateMeeting L b = [] \<and> checkBody L b s = Inr None \<and>
      (\<exists>r. castId L (Some (JStr i)) = Inr r \<and> meetingById r (meetings s) = None) \<and>
      snd (putMeeting L E i b s) = s)"
proof (intro conjI impI allI)
  assume "validateMeeting L b \<noteq> []"
  then show "putMeeting L E i b s = (\<lparr>status = 400, payload = Errors (validateMeeting L b)\<rparr>, s)"
    by (rule putMeeting_validation_fails)
next
  assume "validateMeeting L b = [] \<and> startNotBeforeEnd L b"
  then show "putMeeting L E i b s
      = (\<lparr>status = 400, payload = Error ''Start date must be before end date''\<rparr>, s)"
    by (simp add: putMeeting_check_fails checkBody_dates)
next
  assume "validateMeeting L b = [] \<and> \<not> startNotBeforeEnd L b \<and>
    User_findById L (b ''organizer'') s = Inr None"
  then show "putMeeting L E i b s = (\<lparr>status = 400, payload = Error ''Organizer not found''\<rparr>, s)"
    by (simp add: putMeeting_check_fails checkBody_organizer)
next
  assume "validateMeeting L b = [] \<and> \<not> startNotBeforeEnd L b \<and>
    User_findById L (b ''organizer'') s = Inr (Some u) \<and>
    attendeesToCheck b = Some xs \<and> User_countDocuments L xs s = Inr n \<and> n \<noteq> length xs"
  then show "putMeeting L E i b s
      = (\<lparr>status = 400, payload = Error ''One or more attendees not found''\<rparr>, s)"
    using checkBody_attendees [of L b s u xs n] by (simp add: putMeeting_check_fails)
next
  assume r: "status (fst (putMeeting L E i b s)) = 400"
  then show "snd (putMeeting L E i b s) = s"
    using putMeeting_unchanged [of L E i b s] by simp
  fix ms
  from r show "fst (putMeeting L E i b (s\<lparr>meetings := ms\<rparr>)) = fst (putMeeting L E i b s)"
    by (rule putMeeting_400_frame)
next
  assume r: "status (fst (putMeeting L E i b s)) = 404"
  then show "validateMeeting L b = []" and "checkBody L b s = Inr None"
    and "\<exists>r. castId L (Some (JStr i)) = Inr r \<and> meetingById r (meetings s) = None"
    using putMeeting_404 [OF r] by blast+
  from r show "snd (putMeeting L E i b s) = s"
    using putMeeting_unchanged [of L E i b s] by simp
qed


theorem put_checks_body_before_existence_witness:
  "validateMeeting sampleLib (sampleBody(''organizer'' \<mapsto> JStr ''64b7f0c2a1b2c3d4e5f60009'')) = [] \<and>
   \<not> startNotBeforeEnd sampleLib (sampleBody(''organizer'' \<mapsto> JStr ''64b7f0c2a1b2c3d4e5f60009'')) \<and>
   User_findById sampleLib
     ((sampleBody(''organizer'' \<mapsto> JStr ''64b7f0c2a1b2c3d4e5f60009'')) ''organizer'') sampleStore
     = Inr None \<and>
   meetingById (Some ''64b7f0c2a1b2c3d4e5f6a009'') (meetings sampleStore) = None \<and>
   putMeeting sampleLib sampleEnv ''64b7f0c2a1b2c3d4e5f6a009''
     (sampleBody(''organizer'' \<mapsto> JStr ''64b7f0c2a1b2c3d4e5f60009'')) sampleStore
     = (\<lparr>status = 400, payload = Error ''Organizer not found''\<rparr>, sampleStore) \<and>
   status (fst (putMeeting sampleLib sampleEnv ''64b7f0c2a1b2c3d4e5f6a009'' sampleBody sampleStore))
     = 404 \<and>
   validateMeeting sampleLib sampleBody = [] \<and>
   checkBody sampleLib sampleBody sampleStore = Inr None \<and>
   snd (putMeeting sampleLib sampleEnv ''64b7f0c2a1b2c3d4e5f6a009'' sampleBody sampleStore)
     = sampleStore"
proof -
  let ?b = "sampleBody(''organizer'' \<mapsto> JStr ''64b7f0c2a1b2c3d4e5f60009'')"
  have v: "validateMeeting sampleLib ?b = []" by code_simp
  have d: "\<not> startNotBeforeEnd sampleLib ?b" by code_simp
  have g: "User_findById sampleLib (?b ''organizer'') sampleStore = Inr None" by code_simp
  have m: "meetingById (Some ''64b7f0c2a1b2c3d4e5f6a009'') (meetings sampleStore) = None"
    by code_simp
  have n: "status (fst (putMeeting sampleLib sampleEnv ''64b7f0c2a1b2c3d4e5f6a009'' sampleBody
      sampleStore)) = 404"
    by code_simp
  note t1 = put_checks_body_before_existence [of sampleLib ?b sampleEnv
      "''64b7f0c2a1b2c3d4e5f6a009''" sampleStore]
  note t2 = put_checks_body_before_existence [of sampleLib sampleBody sampleEnv
      "''64b7f0c2a1b2c3d4e5f6a009''" sampleStore]
  have p: "putMeeting sampleLib sampleEnv ''64b7f0c2a1b2c3d4e5f6a009'' ?b sampleStore
     = (\<lparr>status = 400, payload = Error ''Organizer not found''\<rparr>, sampleStore)"
    by (rule mp [OF t1 [THEN conjunct2, THEN conjunct2, THEN conjunct1]]) (intro conjI v d g)
  have q: "validateMeeting sampleLib sampleBody = [] \<and>
      checkBody sampleLib sampleBody sampleStore = Inr None \<and>
      (\<exists>r. castId sampleLib (Some (JStr ''64b7f0c2a1b2c3d4e5f6a009'')) = Inr r \<and>
           meetingById r (meetings sampleStore) = None) \<and>
      snd (putMeeting sampleLib sampleEnv ''64b7f0c2a1b2c3d4e5f6a009'' sampleBody sampleStore)
        = sampleStore"
    by (rule mp [OF t2 [THEN conjunct2, THEN conjunct2, THEN conjunct2, THEN conjunct2,
          THEN conjunct2] n])
  from v d g m n p q show ?thesis by (intro conjI) (elim conjE, assumption)+
qed

section \<open>Deleting a meeting\<close>

lemma find_deleteFirst_distinct:
  "distinct (map f xs) \<Longrightarrow> find (\<lambda>x. f x = i) (deleteFirst (\<lambda>x. Some (f x) = Some i) xs) = None"
proof (induction xs)
  case Nil
  then show ?case by simp
next
  case (Cons x xs)
  show ?case
  proof (cases "f x = i")
    case True
    with Cons.prems have "i \<notin> set (map f xs)" by auto
    with True show ?thesis by (simp add: find_None_ids)
  next
    case False
    with Cons show ?thesis by simp
  qed
qed

lemma meetingById_None_iff:
  "meetingById (Some j) ms = None \<longleftrightarrow> j \<notin> set (map m_id ms)"
  unfolding meetingById_def by (simp add: find_None_ids)

lemma deleteMeeting_cases:
  "deleteMeeting L i s =
     (case castObjectId L (JStr i) of
        CastFails \<Rightarrow> (\<lparr>status = 500, payload = ErrorMessage CastError\<rparr>, s)
      | CastNull \<Rightarrow> (\<lparr>status = 404, payload = Error ''Meeting not found''\<rparr>, s)
      | CastTo j \<Rightarrow>
          if j \<in> set (map m_id (meetings s))
          then (\<lparr>status = 200, payload = Message ''Meeting deleted successfully''\<rparr>,
                s\<lparr>meetings := deleteFirst (\<lambda>x. Some (m_id x) = Some j) (meetings s)\<rparr>)
          else (\<lparr>status = 404, payload = Error ''Meeting not found''\<rparr>, s))"
proof (cases "castObjectId L (JStr i)")
  case CastFails
  then show ?thesis
    by (simp add: deleteMeeting_def Meeting_findByIdAndDelete_def castId_def catch500_def)
next
  case CastNull
  then show ?thesis
    by (simp add: deleteMeeting_def Meeting_findByIdAndDelete_def castId_def catch500_def
        meetingById_def)
next
  case (CastTo j)
  show ?thesis
  proof (cases "meetingById (Some j) (meetings s)")
    case None
    then have "j \<notin> set (map m_id (meetings s))"
      using meetingById_None_iff [of j "meetings s"] by blast
    with CastTo None show ?thesis
      by (simp add: deleteMeeting_def Meeting_findByIdAndDelete_def castId_def catch500_def)
  next
    case (Some m)
    then have "j \<in> set (map m_id (meetings s))"
      using meetingById_None_iff [of j "meetings s"] by simp
    with CastTo Some show ?thesis
      by (simp add: deleteMeeting_def Meeting_findByIdAndDelete_def castId_def catch500_def)
  qed
qed

lemma getMeeting_cases:
  "getMeeting L i s =
     (case castObjectId L (JStr i) of
        CastFails \<Rightarrow> (\<lparr>status = 500, payload = ErrorMessage CastError\<rparr>, s)
      | CastNull \<Rightarrow> (\<lparr>status = 404, payload = Error ''Meeting not found''\<rparr>, s)
      | CastTo j \<Rightarrow>
          (case find (\<lambda>m. m_id m = j) (meetings s) of
             None \<Rightarrow> (\<lparr>status = 404, payload = Error ''Meeting not found''\<rparr>, s)
           | Some m \<Rightarrow> (\<lparr>status = 200, payload = MeetingJson (populate s m)\<rparr>, s)))"
  by (auto simp: getMeeting_def Meeting_findById_def castId_def catch500_def meetingById_def
      split: cast.splits option.splits)

text \<open>
  Claim C7: \<^verbatim>\<open>DELETE /api/meetings/:id\<close> answers 200 with the confirmation message
  exactly when a meeting with the id existed; after such a delete, a
  \<^verbatim>\<open>GET /api/meetings/:id\<close> for the id answers 404 and so does a second delete. The
  collection keeps its ids unique, which is the hypothesis on the store.
\<close>

theorem deleted_meeting_is_gone:
  assumes "distinct (map m_id (meetings s))"
  shows "(status (fst (deleteMeeting L i s)) = 200 \<longleftrightarrow>
            (\<exists>j. castObjectId L (JStr i) = CastTo j \<and> j \<in> set (map m_id (meetings s)))) \<and>
         (status (fst (deleteMeeting L i s)) = 200 \<longrightarrow>
            payload (fst (deleteMeeting L i s)) = Message ''Meeting deleted successfully'' \<and>
            status (fst (getMeeting L i (snd (deleteMeeting L i s)))) = 404 \<and>
            status (fst (deleteMeeting L i (snd (deleteMeeting L i s)))) = 404) \<and>
         (status (fst (deleteMeeting L i s)) \<noteq> 200 \<longrightarrow> snd (deleteMeeting L i s) = s)"
proof (cases "castObjectId L (JStr i)")
  case CastFails
  then show ?thesis by (simp add: deleteMeeting_cases)
next
  case CastNull
  then show ?thesis by (simp add: deleteMeeting_cases)
next
  case (CastTo j)
  show ?thesis
  proof (cases "j \<in> set (map m_id (meetings s))")
    case False
    with CastTo show ?thesis by (simp add: deleteMeeting_cases)
  next
    case True
    let ?s' = "s\<lparr>meetings := deleteFirst (\<lambda>x. Some (m_id x) = Some j) (meetings s)\<rparr>"
    have d: "deleteMeeting L i s =
        (\<lparr>status = 200, payload = Message ''Meeting deleted successfully''\<rparr>, ?s')"
      using CastTo True by (simp add: deleteMeeting_cases)
    have gone: "find (\<lambda>m. m_id m = j) (meetings ?s') = None"
      using find_deleteFirst_distinct [OF assms, of j] by simp
    then have notin: "j \<notin> set (map m_id (meetings ?s'))"
      using find_None_ids [of m_id j "meetings ?s'"] by blast
    have g: "status (fst (getMeeting L i ?s')) = 404"
      using CastTo gone by (simp add: getMeeting_cases)
    have d2: "status (fst (deleteMeeting L i ?s')) = 404"
      using CastTo notin by (simp add: deleteMeeting_cases)
    from d g d2 CastTo True show ?thesis by simp
  qed
qed

theorem deleted_meeting_is_gone_witness:
  "distinct (map m_id (meetings sampleStore)) \<and>
   status (fst (deleteMeeting sampleLib ''64b7f0c2a1b2c3d4e5f6a002'' sampleStore)) = 200 \<and>
   payload (fst (deleteMeeting sampleLib ''64b7f0c2a1b2c3d4e5f6a002'' sampleStore))
     = Message ''Meeting deleted successfully'' \<and>
   status (fst (getMeeting sampleLib ''64b7f0c2a1b2c3d4e5f6a002''
     (snd (deleteMeeting sampleLib ''64b7f0c2a1b2c3d4e5f6a002'' sampleStore)))) = 404 \<and>
   status (fst (deleteMeeting sampleLib ''64b7f0c2a1b2c3d4e5f6a002''
     (snd (deleteMeeting sampleLib ''64b7f0c2a1b2c3d4e5f6a002'' sampleStore)))) = 404"
proof -
  have u: "distinct (map m_id (meetings sampleStore))" by code_simp
  have d: "status (fst (deleteMeeting sampleLib ''64b7f0c2a1b2c3d4e5f6a002'' sampleStore)) = 200"
    by code_simp
  note t = deleted_meeting_is_gone [OF u, of sampleLib "''64b7f0c2a1b2c3d4e5f6a002''"]
  have r: "payload (fst (deleteMeeting sampleLib ''64b7f0c2a1b2c3d4e5f6a002'' sampleStore))
       = Message ''Meeting deleted successfully'' \<and>
     status (fst (getMeeting sampleLib ''64b7f0c2a1b2c3d4e5f6a002''
       (snd (deleteMeeting sampleLib ''64b7f0c2a1b2c3d4e5f6a002'' sampleStore)))) = 404 \<and>
     status (fst (deleteMeeting sampleLib ''64b7f0c2a1b2c3d4e5f6a002''
       (snd (deleteMeeting sampleLib ''64b7f0c2a1b2c3d4e5f6a002'' sampleStore)))) = 404"
    by (rule mp [OF t [THEN conjunct2, THEN conjunct1] d])
  from u d r show ?thesis by (intro conjI) (elim conjE, assumption)+
qed

section \<open>The meetings of a user\<close>

lemma userById_Some_id: "userById (Some j) us = Some u \<Longrightarrow> u_id u = j \<and> u \<in> set us"
  unfolding userById_def by (auto simp: find_Some_iff)

lemma userById_None_iff: "userById (Some j) us = None \<longleftrightarrow> j \<notin> set (map u_id us)"
  unfolding userById_def by (simp add: find_None_ids)

lemma getUserMeetings_cases:
  "getUserMeetings L i s =
     (case castObjectId L (JStr i) of
        CastFails \<Rightarrow> (\<lparr>status = 500, payload = ErrorMessage CastError\<rparr>, s)
      | CastNull \<Rightarrow> (\<lparr>status = 404, payload = Error ''User not found''\<rparr>, s)
      | CastTo j \<Rightarrow>
          if j \<in> set (map u_id (users s))
          then (\<lparr>status = 200,
                 payload =
                   MeetingsJson
                     (map (populate s) (sort_key startDate (filter (involves j) (meetings s))))\<rparr>, s)
          else (\<lparr>status = 404, payload = Error ''User not found''\<rparr>, s))"
proof (cases "castObjectId L (JStr i)")
  case CastFails
  then show ?thesis
    by (simp add: getUserMeetings_def User_findById_def castId_def catch500_def)
next
  case CastNull
  then show ?thesis
    by (simp add: getUserMeetings_def User_findById_def castId_def catch500_def userById_def)
next
  case (CastTo j)
  show ?thesis
  proof (cases "userById (Some j) (users s)")
    case None
    then have "j \<notin> set (map u_id (users s))"
      using userById_None_iff [of j "users s"] by blast
    with CastTo None show ?thesis
      by (simp add: getUserMeetings_def User_findById_def castId_def catch500_def)
  next
    case (Some u)
    then have "j \<in> set (map u_id (users s))" and "u_id u = j"
      using userById_None_iff [of j "users s"] userById_Some_id [of j "users s" u] by simp_all
    with CastTo Some show ?thesis
      by (simp add: getUserMeetings_def User_findById_def castId_def catch500_def)
  qed
qed

lemma distinct_ids_sort_filter:
  assumes "distinct (map f xs)"
  shows "distinct (map f (sort_key k (filter P xs)))"
proof -
  have "mset (map f (sort_key k (filter P xs))) = mset (map f (filter P xs))"
    by simp
  moreover have "distinct (map f (filter P xs))"
    using assms by (rule distinct_map_filter)
  ultimately show ?thesis
    using mset_eq_imp_distinct_iff by blast
qed

text \<open>
  Claim C6 says that \<^verbatim>\<open>GET /api/users/:userId/meetings\<close> answers 404 whenever no user
  has the id. For a \<^verbatim>\<open>userId\<close> that is not an object id this is not so: no user has
  the id \<^verbatim>\<open>abc\<close>, and the answer is 500, because the lookup throws before the handler
  can test its result.
\<close>

theorem invalid_user_id_is_not_404:
  "''abc'' \<notin> set (map u_id (users sampleStore)) \<and>
   getUserMeetings sampleLib ''abc'' sampleStore
     = (\<lparr>status = 500, payload = ErrorMessage CastError\<rparr>, sampleStore) \<and>
   app sampleLib sampleEnv
     \<lparr>req_method = GET, req_path = [''api'', ''users'', ''abc'', ''meetings''], req_body = Map.empty\<rparr>
     sampleStore
     = (\<lparr>status = 500, payload = ErrorMessage CastError\<rparr>, sampleStore)"
  by code_simp

text \<open>
  Claim C6 as amended: for a \<^verbatim>\<open>userId\<close> that is a syntactically valid id (it casts to
  an object id), the answer is 404 when no user has the id; otherwise it is 200 with
  exactly the meetings in which the user is the organizer or is among the attendees, each
  as often as the collection holds it (once, as the ids of the collection are unique),
  assembled, in ascending order of start.
\<close>

theorem meetings_of_user:
  assumes "castObjectId L (JStr userId) = CastTo j"
  shows "(j \<notin> set (map u_id (users s)) \<longrightarrow>
            getUserMeetings L userId s = (\<lparr>status = 404, payload = Error ''User not found''\<rparr>, s)) \<and>
         (j \<in> set (map u_id (users s)) \<longrightarrow>
            (\<exists>ms. getUserMeetings L userId s
                    = (\<lparr>status = 200, payload = MeetingsJson (map (populate s) ms)\<rparr>, s) \<and>
                  mset ms = filter_mset (involves j) (mset (meetings s)) \<and>
                  sorted (map startDate ms) \<and>
                  (distinct (map m_id (meetings s)) \<longrightarrow> distinct (map m_id ms))))"
proof (intro conjI impI)
  assume "j \<notin> set (map u_id (users s))"
  with assms show "getUserMeetings L userId s
      = (\<lparr>status = 404, payload = Error ''User not found''\<rparr>, s)"
    by (simp add: getUserMeetings_cases)
next
  assume ex: "j \<in> set (map u_id (users s))"
  let ?ms = "sort_key startDate (filter (involves j) (meetings s))"
  have r: "getUserMeetings L userId s
      = (\<lparr>status = 200, payload = MeetingsJson (map (populate s) ?ms)\<rparr>, s)"
    using assms ex by (simp add: getUserMeetings_cases)
  have m: "mset ?ms = filter_mset (involves j) (mset (meetings s))"
    by simp
  have o: "sorted (map startDate ?ms)"
    by simp
  have d: "distinct (map m_id (meetings s)) \<longrightarrow> distinct (map m_id ?ms)"
    by (simp add: distinct_ids_sort_filter)
  from r m o d
  show "\<exists>ms. getUserMeetings L userId s
          = (\<lparr>status = 200, payload = MeetingsJson (map (populate s) ms)\<rparr>, s) \<and>
        mset ms = filter_mset (involves j) (mset (meetings s)) \<and>
        sorted (map startDate ms) \<and>
        (distinct (map m_id (meetings s)) \<longrightarrow> distinct (map m_id ms))"
    by blast
qed

theorem meetings_of_user_witness:
  "castObjectId sampleLib (JStr ''64b7f0c2a1b2c3d4e5f60002'') = CastTo ''64b7f0c2a1b2c3d4e5f60002'' \<and>
   ''64b7f0c2a1b2c3d4e5f60002'' \<in> set (map u_id (users sampleStore)) \<and>
   distinct (map m_id (meetings sampleStore)) \<and>
   (\<exists>ms. getUserMeetings sampleLib ''64b7f0c2a1b2c3d4e5f60002'' sampleStore
            = (\<lparr>status = 200, payload = MeetingsJson (map (populate sampleStore) ms)\<rparr>, sampleStore) \<and>
         mset ms = filter_mset (involves ''64b7f0c2a1b2c3d4e5f60002'') (mset (meetings sampleStore)) \<and>
         sorted (map startDate ms) \<and> distinct (map m_id ms)) \<and>
   castObjectId sampleLib (JStr ''64b7f0c2a1b2c3d4e5f60009'') = CastTo ''64b7f0c2a1b2c3d4e5f60009'' \<and>
   ''64b7f0c2a1b2c3d4e5f60009'' \<notin> set (map u_id (users sampleStore)) \<and>
   getUserMeetings sampleLib ''64b7f0c2a1b2c3d4e5f60009'' sampleStore
     = (\<lparr>status = 404, payload = Error ''User not found''\<rparr>, sampleStore)"
proof -
  have c: "castObjectId sampleLib (JStr ''64b7f0c2a1b2c3d4e5f60002'') = CastTo ''64b7f0c2a1b2c3d4e5f60002''"
    by code_simp
  have e: "''64b7f0c2a1b2c3d4e5f60002'' \<in> set (map u_id (users sampleStore))"
    by code_simp
  have u: "distinct (map m_id (meetings sampleStore))"
    by code_simp
  have c9: "castObjectId sampleLib (JStr ''64b7f0c2a1b2c3d4e5f60009'') = CastTo ''64b7f0c2a1b2c3d4e5f60009''"
    by code_simp
  have n9: "''64b7f0c2a1b2c3d4e5f60009'' \<notin> set (map u_id (users sampleStore))"
    by code_simp
  note t = meetings_of_user [OF c, of sampleStore]
  note t9 = meetings_of_user [OF c9, of sampleStore]
  from mp [OF t [THEN conjunct2] e] u
  have x: "\<exists>ms. getUserMeetings sampleLib ''64b7f0c2a1b2c3d4e5f60002'' sampleStore
            = (\<lparr>status = 200, payload = MeetingsJson (map (populate sampleStore) ms)\<rparr>, sampleStore) \<and>
         mset ms = filter_mset (involves ''64b7f0c2a1b2c3d4e5f60002'') (mset (meetings sampleStore)) \<and>
         sorted (map startDate ms) \<and> distinct (map m_id ms)"
    by blast
  have y: "getUserMeetings sampleLib ''64b7f0c2a1b2c3d4e5f60009'' sampleStore
     = (\<lparr>status = 404, payload = Error ''User not found''\<rparr>, sampleStore)"
    by (rule mp [OF t9 [THEN conjunct1] n9])
  from c e u x c9 n9 y show ?thesis by (intro conjI) assumption+
qed

section \<open>What the validation middleware asks of the attendees\<close>

lemma validateMeeting_array_elements:
  "validateMeeting L (b(''attendees'' \<mapsto> JArr xs)) = validateMeeting L (b(''attendees'' \<mapsto> JArr ys))"
  by (simp add: validateMeeting_def)

lemma validateMeeting_attendees_error:
  "(''attendees'', msg) \<in> set (validateMeeting L b) \<longleftrightarrow>
     msg = ''Attendees must be an array'' \<and> (\<exists>v. b ''attendees'' = Some v \<and> \<not> isArray v)"
proof (cases "b ''attendees''")
  case None
  then show ?thesis
    by (auto simp: validateMeeting_def split: if_splits)
next
  case (Some v)
  then show ?thesis
    by (auto simp: validateMeeting_def split: if_splits)
qed

text \<open>
  Claim C3 says that the validation middleware checks each element of \<open>attendees\<close> for
  the syntax of an id and rejects a payload with an attendee that is not one, with 400,
  before any store access. The chain of line 86 is \<^verbatim>\<open>optional().isArray()\<close> and nothing
  more: a payload whose only attendee is \<^verbatim>\<open>"abc"\<close> passes the middleware with no
  failure recorded. (The handler then reads the store, and the attendee query throws.)
\<close>

theorem invalid_attendee_passes_validation:
  "castObjectId sampleLib (JStr ''abc'') = CastFails \<and>
   validateMeeting sampleLib (withAttendees [JStr ''abc''] sampleBody) = [] \<and>
   postMeeting sampleLib sampleEnv (withAttendees [JStr ''abc''] sampleBody) sampleStore
     = (\<lparr>status = 500, payload = ErrorMessage CastError\<rparr>, sampleStore) \<and>
   putMeeting sampleLib sampleEnv ''64b7f0c2a1b2c3d4e5f6a002'' (withAttendees [JStr ''abc''] sampleBody)
     sampleStore
     = (\<lparr>status = 500, payload = ErrorMessage CastError\<rparr>, sampleStore)"
  by code_simp

text \<open>
  Claim C3 as amended: when \<open>attendees\<close> is present the validation middleware checks
  that it is an array and nothing else. The elements of an array are not inspected: the
  failures recorded do not depend on them. A present value that is not an array is
  rejected with 400 and the recorded field-level failures, whatever the store holds and
  without changing it, on create and on update.
\<close>

theorem attendees_only_checked_to_be_an_array:
  "validateMeeting L (b(''attendees'' \<mapsto> JArr xs)) = validateMeeting L (b(''attendees'' \<mapsto> JArr [])) \<and>
   ((''attendees'', ''Attendees must be an array'') \<in> set (validateMeeting L b) \<longleftrightarrow>
      (\<exists>v. b ''attendees'' = Some v \<and> \<not> isArray v)) \<and>
   ((\<exists>v. b ''attendees'' = Some v \<and> \<not> isArray v) \<longrightarrow>
      postMeeting L E b s = (\<lparr>status = 400, payload = Errors (validateMeeting L b)\<rparr>, s) \<and>
      putMeeting L E i b s = (\<lparr>status = 400, payload = Errors (validateMeeting L b)\<rparr>, s))"
proof (intro conjI impI)
  show "validateMeeting L (b(''attendees'' \<mapsto> JArr xs)) = validateMeeting L (b(''attendees'' \<mapsto> JArr []))"
    by (rule validateMeeting_array_elements)
  show "((''attendees'', ''Attendees must be an array'') \<in> set (validateMeeting L b)) =
      (\<exists>v. b ''attendees'' = Some v \<and> \<not> isArray v)"
    by (simp add: validateMeeting_attendees_error)
next
  assume "\<exists>v. b ''attendees'' = Some v \<and> \<not> isArray v"
  then have "(''attendees'', ''Attendees must be an array'') \<in> set (validateMeeting L b)"
    by (simp add: validateMeeting_attendees_error)
  then have ne: "validateMeeting L b \<noteq> []"
    by auto
  from ne show "postMeeting L E b s = (\<lparr>status = 400, payload = Errors (validateMeeting L b)\<rparr>, s)"
    by (rule postMeeting_validation_fails)
  from ne show "putMeeting L E i b s = (\<lparr>status = 400, payload = Errors (validateMeeting L b)\<rparr>, s)"
    by (rule putMeeting_validation_fails)
qed

theorem attendees_only_checked_to_be_an_array_witness:
  "(sampleBody(''attendees'' \<mapsto> JStr ''64b7f0c2a1b2c3d4e5f60002'')) ''attendees''
     = Some (JStr ''64b7f0c2a1b2c3d4e5f60002'') \<and>
   \<not> isArray (JStr ''64b7f0c2a1b2c3d4e5f60002'') \<and>
   postMeeting sampleLib sampleEnv (sampleBody(''attendees'' \<mapsto> JStr ''64b7f0c2a1b2c3d4e5f60002''))
     sampleStore
     = (\<lparr>status = 400,
         payload = Errors (validateMeeting sampleLib
           (sampleBody(''attendees'' \<mapsto> JStr ''64b7f0c2a1b2c3d4e5f60002'')))\<rparr>, sampleStore) \<and>
   validateMeeting sampleLib (sampleBody(''attendees'' \<mapsto> JStr ''64b7f0c2a1b2c3d4e5f60002''))
     = [(''attendees'', ''Attendees must be an array'')]"
proof -
  let ?b = "sampleBody(''attendees'' \<mapsto> JStr ''64b7f0c2a1b2c3d4e5f60002'')"
  have a: "?b ''attendees'' = Some (JStr ''64b7f0c2a1b2c3d4e5f60002'')" by simp
  have n: "\<not> isArray (JStr ''64b7f0c2a1b2c3d4e5f60002'')" by simp
  have v: "validateMeeting sampleLib ?b = [(''attendees'', ''Attendees must be an array'')]"
    by code_simp
  from a n have ex: "\<exists>v. ?b ''attendees'' = Some v \<and> \<not> isArray v" by blast
  note t = attendees_only_checked_to_be_an_array [of sampleLib ?b "[]" sampleEnv sampleStore "''x''"]
  have p: "postMeeting sampleLib sampleEnv ?b sampleStore
     = (\<lparr>status = 400, payload = Errors (validateMeeting sampleLib ?b)\<rparr>, sampleStore)"
    using mp [OF t [THEN conjunct2, THEN conjunct2] ex] by (rule conjunct1)
  from a n p v show ?thesis by (intro conjI) assumption+
qed

section \<open>Duplicate attendees\<close>

text \<open>
  Claim C2 says that the attendee check fails exactly when the number of matching users
  differs from the number of distinct requested ids, so that a list of existing ids is
  accepted whatever its duplicates. Line 190 (and 225) compares the number of matching
  users with \<^verbatim>\<open>req.body.attendees.length\<close>: with the existing user Bob requested twice
  the count is 1, the length is 2, and create and update answer 400 with
  \<^verbatim>\<open>One or more attendees not found\<close>, although every requested attendee exists. The
  same body with Bob once is accepted.
\<close>

theorem duplicate_attendees_are_reported_missing:
  "userById (Some ''64b7f0c2a1b2c3d4e5f60002'') (users sampleStore) = Some bob \<and>
   validateMeeting sampleLib
     (withAttendees [JStr ''64b7f0c2a1b2c3d4e5f60002'', JStr ''64b7f0c2a1b2c3d4e5f60002''] sampleBody) = [] \<and>
   User_countDocuments sampleLib
     [JStr ''64b7f0c2a1b2c3d4e5f60002'', JStr ''64b7f0c2a1b2c3d4e5f60002''] sampleStore = Inr 1 \<and>
   postMeeting sampleLib sampleEnv
     (withAttendees [JStr ''64b7f0c2a1b2c3d4e5f60002'', JStr ''64b7f0c2a1b2c3d4e5f60002''] sampleBody)
     sampleStore
     = (\<lparr>status = 400, payload = Error ''One or more attendees not found''\<rparr>, sampleStore) \<and>
   putMeeting sampleLib sampleEnv ''64b7f0c2a1b2c3d4e5f6a002''
     (withAttendees [JStr ''64b7f0c2a1b2c3d4e5f60002'', JStr ''64b7f0c2a1b2c3d4e5f60002''] sampleBody)
     sampleStore
     = (\<lparr>status = 400, payload = Error ''One or more attendees not found''\<rparr>, sampleStore) \<and>
   status (fst (postMeeting sampleLib sampleEnv
     (withAttendees [JStr ''64b7f0c2a1b2c3d4e5f60002''] sampleBody) sampleStore)) = 201"
  by code_simp

section \<open>Counting the attendees that exist\<close>

lemma count_le_card:
  assumes "distinct (map u_id us)"
  shows "length (filter (\<lambda>u. Some (u_id u) \<in> set rs) us) \<le> card (set rs)"
proof -
  let ?A = "filter (\<lambda>u. Some (u_id u) \<in> set rs) us"
  have d: "distinct (map u_id ?A)"
    using assms by (rule distinct_map_filter)
  have "length ?A = length (map u_id ?A)" by simp
  also have "\<dots> = card (set (map u_id ?A))"
    using d by (simp only: distinct_card)
  also have "\<dots> = card (Some ` set (map u_id ?A))"
    by (simp add: card_image)
  also have "\<dots> \<le> card (set rs)"
    by (rule card_mono) auto
  finally show ?thesis .
qed

lemma count_eq_length:
  assumes "distinct (map u_id us)"
    and "length (filter (\<lambda>u. Some (u_id u) \<in> set rs) us) = length rs"
  shows "distinct rs \<and> set rs \<subseteq> Some ` set (map u_id us)"
proof -
  let ?A = "filter (\<lambda>u. Some (u_id u) \<in> set rs) us"
  have le: "length ?A \<le> card (set rs)"
    using assms(1) by (rule count_le_card)
  have "card (set rs) \<le> length rs" by (rule card_length)
  with le assms(2) have c: "card (set rs) = length rs" by simp
  then have dist: "distinct rs" by (rule card_distinct)
  have d: "distinct (map u_id ?A)"
    using assms(1) by (rule distinct_map_filter)
  have "card (Some ` set (map u_id ?A)) = card (set (map u_id ?A))"
    by (simp add: card_image)
  also have "\<dots> = length (map u_id ?A)"
    using d by (simp only: distinct_card)
  also have "\<dots> = card (set rs)"
    using assms(2) c by simp
  finally have "card (Some ` set (map u_id ?A)) = card (set rs)" .
  moreover have "Some ` set (map u_id ?A) \<subseteq> set rs" by auto
  ultimately have e: "Some ` set (map u_id ?A) = set rs"
    by (simp add: card_subset_eq)
  have "Some ` set (map u_id ?A) \<subseteq> Some ` set (map u_id us)" by auto
  then have "set rs \<subseteq> Some ` set (map u_id us)"
    by (simp only: e)
  with dist show ?thesis ..
qed

lemma castIds_Inr:
  "castIds L xs = Inr rs \<longleftrightarrow>
     CastFails \<notin> set (map (castObjectId L) xs) \<and> rs = map (\<lambda>j. ref_of (castObjectId L j)) xs"
  by (auto simp: castIds_def)

lemma User_countDocuments_Inr:
  "User_countDocuments L xs s = Inr n \<longleftrightarrow>
     CastFails \<notin> set (map (castObjectId L) xs) \<and>
     n = length (filter (\<lambda>u. Some (u_id u) \<in> set (map (\<lambda>j. ref_of (castObjectId L j)) xs)) (users s))"
  by (auto simp: User_countDocuments_def castIds_def)

text \<open>A list with a repeated reference never has as many matching users as entries.\<close>

lemma duplicates_count_less:
  assumes "distinct (map u_id (users s))"
    and "CastFails \<notin> set (map (castObjectId L) xs)"
    and "\<not> distinct (map (castObjectId L) xs)"
  shows "\<exists>n. User_countDocuments L xs s = Inr n \<and> n \<noteq> length xs"
proof -
  let ?rs = "map (\<lambda>j. ref_of (castObjectId L j)) xs"
  let ?n = "length (filter (\<lambda>u. Some (u_id u) \<in> set ?rs) (users s))"
  have "\<not> distinct ?rs"
  proof
    assume d: "distinct ?rs"
    have "distinct (map (castObjectId L) xs)"
      using d assms(2) by (simp add: distinct_map inj_on_def)
    with assms(3) show False by contradiction
  qed
  then have "?n \<noteq> length ?rs"
    using count_eq_length [OF assms(1), of ?rs] by blast
  then have "?n \<noteq> length xs" by simp
  moreover have "User_countDocuments L xs s = Inr ?n"
    using assms(2) by (simp add: User_countDocuments_Inr)
  ultimately show ?thesis by blast
qed

text \<open>A list with an entry that is no user's id has fewer matching users than entries.\<close>

lemma missing_attendee_count:
  assumes du: "distinct (map u_id (users s))"
    and nf: "CastFails \<notin> set (map (castObjectId L) xs)"
    and x: "x \<in> set xs"
    and no: "\<forall>u \<in> set (users s). castObjectId L x \<noteq> CastTo (u_id u)"
  shows "\<exists>n. User_countDocuments L xs s = Inr n \<and> n \<noteq> length xs"
proof -
  let ?rs = "map (\<lambda>j. ref_of (castObjectId L j)) xs"
  let ?n = "length (filter (\<lambda>u. Some (u_id u) \<in> set ?rs) (users s))"
  have "ref_of (castObjectId L x) \<notin> Some ` set (map u_id (users s))"
    using no by (cases "castObjectId L x") auto
  moreover have "ref_of (castObjectId L x) \<in> set ?rs"
    using x by simp
  ultimately have "\<not> set ?rs \<subseteq> Some ` set (map u_id (users s))"
    by blast
  then have "?n \<noteq> length ?rs"
    using count_eq_length [OF du, of ?rs] by blast
  then have "?n \<noteq> length xs" by simp
  moreover have "User_countDocuments L xs s = Inr ?n"
    using nf by (simp add: User_countDocuments_Inr)
  ultimately show ?thesis by blast
qed

section \<open>Rejected creates\<close>

text \<open>
  Claim C4: every \<^verbatim>\<open>POST /api/meetings\<close> that is answered 400 persists nothing: the
  store after the request, and with it the meetings collection, is the store before it.
  Each of the four reasons gives such an answer: a failure recorded by the validation
  middleware, a start that is not before the end, an organizer that does not exist, and
  an attendee that does not exist among attendees that all cast (the others may exist).
\<close>

theorem rejected_create_persists_nothing:
  "(status (fst (postMeeting L E b s)) = 400 \<longrightarrow>
      snd (postMeeting L E b s) = s \<and> meetings (snd (postMeeting L E b s)) = meetings s) \<and>
   (validateMeeting L b \<noteq> [] \<longrightarrow>
      postMeeting L E b s = (\<lparr>status = 400, payload = Errors (validateMeeting L b)\<rparr>, s)) \<and>
   (validateMeeting L b = [] \<and> startNotBeforeEnd L b \<longrightarrow>
      postMeeting L E b s
        = (\<lparr>status = 400, payload = Error ''Start date must be before end date''\<rparr>, s)) \<and>
   (validateMeeting L b = [] \<and> \<not> startNotBeforeEnd L b \<and>
    User_findById L (b ''organizer'') s = Inr None \<longrightarrow>
      postMeeting L E b s = (\<lparr>status = 400, payload = Error ''Organizer not found''\<rparr>, s)) \<and>
   (validateMeeting L b = [] \<and> \<not> startNotBeforeEnd L b \<and>
    User_findById L (b ''organizer'') s = Inr (Some u) \<and>
    distinct (map u_id (users s)) \<and>
    b ''attendees'' = Some (JArr xs) \<and> CastFails \<notin> set (map (castObjectId L) xs) \<and>
    x \<in> set xs \<and> (\<forall>u \<in> set (users s). castObjectId L x \<noteq> CastTo (u_id u)) \<longrightarrow>
      postMeeting L E b s
        = (\<lparr>status = 400, payload = Error ''One or more attendees not found''\<rparr>, s))"
proof (intro conjI impI)
  assume "status (fst (postMeeting L E b s)) = 400"
  then show "snd (postMeeting L E b s) = s"
    using postMeeting_unchanged [of L E b s] by simp
  then show "meetings (snd (postMeeting L E b s)) = meetings s"
    by simp
next
  assume "validateMeeting L b \<noteq> []"
  then show "postMeeting L E b s = (\<lparr>status = 400, payload = Errors (validateMeeting L b)\<rparr>, s)"
    by (rule postMeeting_validation_fails)
next
  assume "validateMeeting L b = [] \<and> startNotBeforeEnd L b"
  then show "postMeeting L E b s
      = (\<lparr>status = 400, payload = Error ''Start date must be before end date''\<rparr>, s)"
    by (simp add: postMeeting_check_fails checkBody_dates)
next
  assume "validateMeeting L b = [] \<and> \<not> startNotBeforeEnd L b \<and>
    User_findById L (b ''organizer'') s = Inr None"
  then show "postMeeting L E b s = (\<lparr>status = 400, payload = Error ''Organizer not found''\<rparr>, s)"
    by (simp add: postMeeting_check_fails checkBody_organizer)
next
  assume a: "validateMeeting L b = [] \<and> \<not> startNotBeforeEnd L b \<and>
    User_findById L (b ''organizer'') s = Inr (Some u) \<and>
    distinct (map u_id (users s)) \<and>
    b ''attendees'' = Some (JArr xs) \<and> CastFails \<notin> set (map (castObjectId L) xs) \<and>
    x \<in> set xs \<and> (\<forall>u \<in> set (users s). castObjectId L x \<noteq> CastTo (u_id u))"
  then have v: "validateMeeting L b = []" and d: "\<not> startNotBeforeEnd L b"
    and o: "User_findById L (b ''organizer'') s = Inr (Some u)"
    and du: "distinct (map u_id (users s))"
    and at: "b ''attendees'' = Some (JArr xs)"
    and nf: "CastFails \<notin> set (map (castObjectId L) xs)"
    and x: "x \<in> set xs"
    and no: "\<forall>u \<in> set (users s). castObjectId L x \<noteq> CastTo (u_id u)"
    by simp_all
  from missing_attendee_count [OF du nf x no] obtain n where
    n: "User_countDocuments L xs s = Inr n" "n \<noteq> length xs"
    by blast
  from x have "xs \<noteq> []" by auto
  with at have "attendeesToCheck b = Some xs"
    by (simp add: attendeesToCheck_def)
  from checkBody_attendees [OF d o this n]
  have "checkBody L b s = Inr (Some ''One or more attendees not found'')" .
  with v show "postMeeting L E b s
      = (\<lparr>status = 400, payload = Error ''One or more attendees not found''\<rparr>, s)"
    by (rule postMeeting_check_fails)
qed

theorem rejected_create_persists_nothing_witness:
  "validateMeeting sampleLib
     (withAttendees [JStr ''64b7f0c2a1b2c3d4e5f60002'', JStr ''64b7f0c2a1b2c3d4e5f60009''] sampleBody) = [] \<and>
   \<not> startNotBeforeEnd sampleLib
     (withAttendees [JStr ''64b7f0c2a1b2c3d4e5f60002'', JStr ''64b7f0c2a1b2c3d4e5f60009''] sampleBody) \<and>
   User_findById sampleLib
     (withAttendees [JStr ''64b7f0c2a1b2c3d4e5f60002'', JStr ''64b7f0c2a1b2c3d4e5f60009''] sampleBody
        ''organizer'') sampleStore = Inr (Some alice) \<and>
   distinct (map u_id (users sampleStore)) \<and>
   list_all (\<lambda>u. castObjectId sampleLib (JStr ''64b7f0c2a1b2c3d4e5f60009'') \<noteq> CastTo (u_id u))
     (users sampleStore) \<and>
   postMeeting sampleLib sampleEnv
     (withAttendees [JStr ''64b7f0c2a1b2c3d4e5f60002'', JStr ''64b7f0c2a1b2c3d4e5f60009''] sampleBody)
     sampleStore
     = (\<lparr>status = 400, payload = Error ''One or more attendees not found''\<rparr>, sampleStore) \<and>
   meetings (snd (postMeeting sampleLib sampleEnv
     (withAttendees [JStr ''64b7f0c2a1b2c3d4e5f60002'', JStr ''64b7f0c2a1b2c3d4e5f60009''] sampleBody)
     sampleStore)) = meetings sampleStore"
proof -
  let ?xs = "[JStr ''64b7f0c2a1b2c3d4e5f60002'', JStr ''64b7f0c2a1b2c3d4e5f60009'']"
  let ?b = "withAttendees ?xs sampleBody"
  have v: "validateMeeting sampleLib ?b = []" by code_simp
  have d: "\<not> startNotBeforeEnd sampleLib ?b" by code_simp
  have o: "User_findById sampleLib (?b ''organizer'') sampleStore = Inr (Some alice)" by code_simp
  have du: "distinct (map u_id (users sampleStore))" by code_simp
  have at: "?b ''attendees'' = Some (JArr ?xs)" by (simp add: withAttendees_def)
  have nf: "CastFails \<notin> set (map (castObjectId sampleLib) ?xs)" by code_simp
  have x: "JStr ''64b7f0c2a1b2c3d4e5f60009'' \<in> set ?xs" by simp
  have la: "list_all (\<lambda>u. castObjectId sampleLib (JStr ''64b7f0c2a1b2c3d4e5f60009'') \<noteq> CastTo (u_id u))
     (users sampleStore)" by code_simp
  then have no: "\<forall>u \<in> set (users sampleStore).
      castObjectId sampleLib (JStr ''64b7f0c2a1b2c3d4e5f60009'') \<noteq> CastTo (u_id u)"
    by (simp only: list_all_iff)
  note t = rejected_create_persists_nothing [of sampleLib sampleEnv ?b sampleStore alice ?xs
      "JStr ''64b7f0c2a1b2c3d4e5f60009''"]
  have r: "postMeeting sampleLib sampleEnv ?b sampleStore
       = (\<lparr>status = 400, payload = Error ''One or more attendees not found''\<rparr>, sampleStore)"
    by (rule mp [OF t [THEN conjunct2, THEN conjunct2, THEN conjunct2, THEN conjunct2]])
      (intro conjI v d o du at nf x no)
  then have st: "status (fst (postMeeting sampleLib sampleEnv ?b sampleStore)) = 400"
    by simp
  have m: "meetings (snd (postMeeting sampleLib sampleEnv ?b sampleStore)) = meetings sampleStore"
    using mp [OF t [THEN conjunct1] st] by (rule conjunct2)
  from v d o du la r m show ?thesis by (intro conjI) assumption+
qed

section \<open>Requests keep the ids unique\<close>

lemma postMeeting_check_passes:
  "validateMeeting L b = [] \<Longrightarrow> checkBody L b s = Inr None \<Longrightarrow>
   postMeeting L E b s =
     catch500 s
       (bindE (newMeeting L E b) (\<lambda>meeting.
        bindE (insertMeeting meeting s) (\<lambda>s'.
          Inr (\<lparr>status = 201,
                payload =
                  (case meetingById (Some (m_id meeting)) (meetings s') of
                     None \<Rightarrow> NullJson
                   | Some m \<Rightarrow> MeetingJson (populate s' m))\<rparr>, s'))))"
  by (simp add: postMeeting_def handleValidationErrors_def)

lemma postMeeting_201_store:
  assumes "status (fst (postMeeting L E b s)) = 201"
  shows "\<exists>m. m_id m \<notin> set (map m_id (meetings s)) \<and>
             snd (postMeeting L E b s) = s\<lparr>meetings := meetings s @ [m]\<rparr>"
proof -
  from postMeeting_201_checked [OF assms]
  have v: "validateMeeting L b = []" and c: "checkBody L b s = Inr None" by simp_all
  show ?thesis
  proof (cases "newMeeting L E b")
    case (Inl e)
    with assms show ?thesis
      by (simp add: postMeeting_check_passes [OF v c] catch500_def)
  next
    case (Inr m)
    with assms show ?thesis
      by (auto simp: postMeeting_check_passes [OF v c] catch500_def insertMeeting_def
          split: if_splits)
  qed
qed

lemma meetingById_Some: "meetingById r ms = Some m \<Longrightarrow> r = Some (m_id m)"
  by (cases r) (auto simp: meetingById_def find_Some_iff)

lemma findByIdAndUpdate_store:
  assumes "Meeting_findByIdAndUpdate L E i b s = Inr (Some m', s')"
  shows "\<exists>r. (\<forall>x::meeting. Some (m_id x) = r \<longrightarrow> m_id m' = m_id x) \<and>
           s' = s\<lparr>meetings := updateFirst (\<lambda>x. Some (m_id x) = r) (\<lambda>x. m') (meetings s)\<rparr>"
proof -
  from assms obtain r u f where
    rest: "(case meetingById r (meetings s) of
         None \<Rightarrow> Inr (None, s)
       | Some m \<Rightarrow>
           if m_id (applyUpdate u (now E) (f m)) \<noteq> m_id m then Inl ImmutableField
           else
             Inr (Some (applyUpdate u (now E) (f m)),
                  s\<lparr>meetings :=
                      updateFirst (\<lambda>x. Some (m_id x) = r)
                        (\<lambda>x. applyUpdate u (now E) (f m)) (meetings s)\<rparr>))
       = Inr (Some m', s')"
    unfolding Meeting_findByIdAndUpdate_def bindE_eq_Inr by blast
  show ?thesis
  proof (cases "meetingById r (meetings s)")
    case None
    with rest show ?thesis by simp
  next
    case (Some m)
    from meetingById_Some [OF Some] have r: "r = Some (m_id m)" .
    from rest Some have same: "m_id m' = m_id m"
      and s': "s' = s\<lparr>meetings := updateFirst (\<lambda>x. Some (m_id x) = r) (\<lambda>x. m') (meetings s)\<rparr>"
      by (auto split: if_splits)
    from r same have "\<forall>x::meeting. Some (m_id x) = r \<longrightarrow> m_id m' = m_id x" by simp
    with s' show ?thesis by blast
  qed
qed

lemma putMeeting_200_store:
  assumes "status (fst (putMeeting L E i b s)) = 200"
  shows "\<exists>r m'. (\<forall>x::meeting. Some (m_id x) = r \<longrightarrow> m_id m' = m_id x) \<and>
           snd (putMeeting L E i b s)
             = s\<lparr>meetings := updateFirst (\<lambda>x. Some (m_id x) = r) (\<lambda>x. m') (meetings s)\<rparr>"
proof -
  from assms obtain m' s' where
    "Meeting_findByIdAndUpdate L E i b s = Inr (Some m', s')" "snd (putMeeting L E i b s) = s'"
    by (auto simp: putMeeting_def handleValidationErrors_def catch500_def bindE_def
        split: sum.splits option.splits prod.splits if_splits)
  with findByIdAndUpdate_store [of L E i b s m' s'] show ?thesis by blast
qed

lemma map_updateFirst:
  "(\<And>x. P x \<Longrightarrow> g (f x) = g x) \<Longrightarrow> map g (updateFirst P f xs) = map g xs"
  by (induction xs) auto

lemma set_deleteFirst: "set (deleteFirst P xs) \<subseteq> set xs"
  by (induction xs) auto

lemma distinct_deleteFirst: "distinct (map f xs) \<Longrightarrow> distinct (map f (deleteFirst P xs))"
proof (induction xs)
  case Nil
  then show ?case by simp
next
  case (Cons x xs)
  then show ?case
    using set_deleteFirst [of P xs] by auto
qed

lemma deleteMeeting_store:
  "snd (deleteMeeting L i s) = s \<or>
   (\<exists>P. snd (deleteMeeting L i s) = s\<lparr>meetings := deleteFirst P (meetings s)\<rparr>)"
  by (auto simp: deleteMeeting_cases split: cast.splits)

lemma postUser_store:
  "snd (postUser L E b s) = s \<or>
   (\<exists>u. u_id u \<notin> set (map u_id (users s)) \<and> snd (postUser L E b s) = s\<lparr>users := users s @ [u]\<rparr>)"
  by (auto simp: postUser_def handleValidationErrors_def bindE_def insertUser_def
      split: sum.splits if_splits)

lemma reads_keep_store:
  "snd (health s) = s"
  "snd (getUsers s) = s"
  "snd (getUser L i s) = s"
  "snd (getMeetings s) = s"
  "snd (getMeeting L i s) = s"
  "snd (getUserMeetings L i s) = s"
  "snd (getUpcoming E s) = s"
  by (auto simp: health_def getUsers_def getUser_def getMeetings_def getMeeting_cases
      getUserMeetings_cases getUpcoming_def catch500_def bindE_def
      split: sum.splits option.splits cast.splits)

lemma postMeeting_keeps_uniqueIds:
  assumes u: "uniqueIds s"
  shows "uniqueIds (snd (postMeeting L E b s))"
proof (cases "status (fst (postMeeting L E b s)) = 201")
  case False
  then have "snd (postMeeting L E b s) = s"
    by (rule postMeeting_unchanged)
  with u show ?thesis by simp
next
  case True
  from postMeeting_201_store [OF True] obtain m where
    fresh: "m_id m \<notin> set (map m_id (meetings s))"
    and s': "snd (postMeeting L E b s) = s\<lparr>meetings := meetings s @ [m]\<rparr>"
    by blast
  from u fresh have "uniqueIds (s\<lparr>meetings := meetings s @ [m]\<rparr>)"
    by (simp add: uniqueIds_def)
  then show ?thesis
    by (simp only: s')
qed

lemma putMeeting_keeps_uniqueIds:
  assumes u: "uniqueIds s"
  shows "uniqueIds (snd (putMeeting L E i b s))"
proof (cases "status (fst (putMeeting L E i b s)) = 200")
  case False
  then have "snd (putMeeting L E i b s) = s"
    by (rule putMeeting_unchanged)
  with u show ?thesis by simp
next
  case True
  from putMeeting_200_store [OF True] obtain r m' where
    same: "\<forall>x::meeting. Some (m_id x) = r \<longrightarrow> m_id m' = m_id x"
    and s': "snd (putMeeting L E i b s)
        = s\<lparr>meetings := updateFirst (\<lambda>x. Some (m_id x) = r) (\<lambda>x. m') (meetings s)\<rparr>"
    by blast
  have "map m_id (updateFirst (\<lambda>x. Some (m_id x) = r) (\<lambda>x. m') (meetings s))
      = map m_id (meetings s)"
    using same by (intro map_updateFirst) blast
  with u have "uniqueIds (s\<lparr>meetings := updateFirst (\<lambda>x. Some (m_id x) = r) (\<lambda>x. m') (meetings s)\<rparr>)"
    by (simp add: uniqueIds_def)
  then show ?thesis
    by (simp only: s')
qed

lemma deleteMeeting_keeps_uniqueIds:
  assumes u: "uniqueIds s"
  shows "uniqueIds (snd (deleteMeeting L i s))"
proof -
  from deleteMeeting_store [of L i s] consider
    "snd (deleteMeeting L i s) = s"
    | P where "snd (deleteMeeting L i s) = s\<lparr>meetings := deleteFirst P (meetings s)\<rparr>"
    by blast
  then show ?thesis
  proof cases
    case 1
    with u show ?thesis by simp
  next
    case 2
    from u have "uniqueIds (s\<lparr>meetings := deleteFirst P (meetings s)\<rparr>)"
      by (simp add: uniqueIds_def distinct_deleteFirst)
    then show ?thesis
      by (simp only: 2)
  qed
qed

lemma postUser_keeps_uniqueIds:
  assumes u: "uniqueIds s"
  shows "uniqueIds (snd (postUser L E b s))"
proof -
  from postUser_store [of L E b s] consider
    "snd (postUser L E b s) = s"
    | x where "u_id x \<notin> set (map u_id (users s))"
        "snd (postUser L E b s) = s\<lparr>users := users s @ [x]\<rparr>"
    by blast
  then show ?thesis
  proof cases
    case 1
    with u show ?thesis by simp
  next
    case 2
    with u show ?thesis
      by (simp add: uniqueIds_def)
  qed
qed

lemma app_keeps_uniqueIds:
  assumes u: "uniqueIds s"
  shows "uniqueIds (snd (app L E r s))"
proof (cases "findRoute routes r")
  case None
  with u show ?thesis by (simp add: app_def)
next
  case (Some a)
  obtain e ps where a: "a = (e, ps)" by (cases a)
  have "uniqueIds (snd (runEndpoint L E e ps (req_body r) s))"
    using u postMeeting_keeps_uniqueIds [OF u] putMeeting_keeps_uniqueIds [OF u]
      deleteMeeting_keeps_uniqueIds [OF u] postUser_keeps_uniqueIds [OF u]
    by (cases e) (simp_all add: runEndpoint_def reads_keep_store)
  with Some a show ?thesis by (simp add: app_def)
qed

lemma serve_keeps_uniqueIds:
  "uniqueIds s \<Longrightarrow> uniqueIds (serve L rs s)"
proof (induction rs arbitrary: s)
  case Nil
  then show ?case by simp
next
  case (Cons x rs)
  obtain E r where x: "x = (E, r)" by (cases x)
  from app_keeps_uniqueIds [OF Cons.prems, of L E r]
  have "uniqueIds (snd (app L E r s))" .
  from Cons.IH [OF this] x show ?case by simp
qed

lemma emptyStore_uniqueIds: "uniqueIds emptyStore"
  by (simp add: uniqueIds_def emptyStore_def)

section \<open>Attendee lists that repeat an id\<close>

text \<open>
  Claim C8 says that every create or update whose attendees list holds the same existing
  user's id more than once, all other checks passing, is answered 400
  \<^verbatim>\<open>One or more attendees not found\<close>, and that consequently no meeting with duplicate
  attendee ids can ever be created through the API. Neither holds as stated. With
  attendees \<^verbatim>\<open>[bob, bob, "abc"]\<close> the validation middleware, the dates and the
  organizer pass, no check looks at the syntax of an attendee, and the attendee query
  throws on \<^verbatim>\<open>abc\<close>: the answer is 500 on create and on update. And the check reads
  only the \<open>attendees\<close> field of the body: after the run \<open>sampleRun\<close>, whose last
  request is an update without that field that pushes Bob onto the array, the one stored
  meeting lists Bob twice.
\<close>

theorem invalid_attendee_beside_duplicates:
  "validateMeeting sampleLib
     (withAttendees [JStr ''64b7f0c2a1b2c3d4e5f60002'', JStr ''64b7f0c2a1b2c3d4e5f60002'', JStr ''abc'']
        sampleBody) = [] \<and>
   \<not> startNotBeforeEnd sampleLib
     (withAttendees [JStr ''64b7f0c2a1b2c3d4e5f60002'', JStr ''64b7f0c2a1b2c3d4e5f60002'', JStr ''abc'']
        sampleBody) \<and>
   User_findById sampleLib
     (withAttendees [JStr ''64b7f0c2a1b2c3d4e5f60002'', JStr ''64b7f0c2a1b2c3d4e5f60002'', JStr ''abc'']
        sampleBody ''organizer'') sampleStore = Inr (Some alice) \<and>
   userById (Some ''64b7f0c2a1b2c3d4e5f60002'') (users sampleStore) = Some bob \<and>
   postMeeting sampleLib sampleEnv
     (withAttendees [JStr ''64b7f0c2a1b2c3d4e5f60002'', JStr ''64b7f0c2a1b2c3d4e5f60002'', JStr ''abc'']
        sampleBody) sampleStore
     = (\<lparr>status = 500, payload = ErrorMessage CastError\<rparr>, sampleStore) \<and>
   putMeeting sampleLib sampleEnv ''64b7f0c2a1b2c3d4e5f6a002''
     (withAttendees [JStr ''64b7f0c2a1b2c3d4e5f60002'', JStr ''64b7f0c2a1b2c3d4e5f60002'', JStr ''abc'']
        sampleBody) sampleStore
     = (\<lparr>status = 500, payload = ErrorMessage CastError\<rparr>, sampleStore) \<and>
   map attendees (meetings (serve sampleLib sampleRun emptyStore))
     = [[Some ''64b7f0c2a1b2c3d4e5f60002'', Some ''64b7f0c2a1b2c3d4e5f60002'']]"
  by code_simp

text \<open>
  Claim C8 as amended: a create or an update whose attendees list holds the same id more
  than once (an existing user's id in particular), all other checks passing and every
  attendee value being castable to an id, is answered 400
  \<^verbatim>\<open>One or more attendees not found\<close> and persists nothing, because the users that
  match are counted without repetition and compared with the raw length of the list.
\<close>

theorem duplicate_attendees_rejected:
  "distinct (map u_id (users s)) \<and> validateMeeting L b = [] \<and> \<not> startNotBeforeEnd L b \<and>
   User_findById L (b ''organizer'') s = Inr (Some u) \<and>
   b ''attendees'' = Some (JArr xs) \<and> CastFails \<notin> set (map (castObjectId L) xs) \<and>
   k < j \<and> j < length xs \<and> castObjectId L (xs ! k) = castObjectId L (xs ! j) \<longrightarrow>
     postMeeting L E b s
       = (\<lparr>status = 400, payload = Error ''One or more attendees not found''\<rparr>, s) \<and>
     putMeeting L E i b s
       = (\<lparr>status = 400, payload = Error ''One or more attendees not found''\<rparr>, s)"
proof (intro conjI impI)
  assume a: "distinct (map u_id (users s)) \<and> validateMeeting L b = [] \<and> \<not> startNotBeforeEnd L b \<and>
    User_findById L (b ''organizer'') s = Inr (Some u) \<and>
    b ''attendees'' = Some (JArr xs) \<and> CastFails \<notin> set (map (castObjectId L) xs) \<and>
    k < j \<and> j < length xs \<and> castObjectId L (xs ! k) = castObjectId L (xs ! j)"
  then have du: "distinct (map u_id (users s))" and v: "validateMeeting L b = []"
    and d: "\<not> startNotBeforeEnd L b" and o: "User_findById L (b ''organizer'') s = Inr (Some u)"
    and at: "b ''attendees'' = Some (JArr xs)"
    and nf: "CastFails \<notin> set (map (castObjectId L) xs)"
    and kj: "k < j" "j < length xs" "castObjectId L (xs ! k) = castObjectId L (xs ! j)"
    by simp_all
  have "\<not> distinct (map (castObjectId L) xs)"
  proof
    assume "distinct (map (castObjectId L) xs)"
    from nth_eq_iff_index_eq [OF this, of k j] kj show False by simp
  qed
  from duplicates_count_less [OF du nf this] obtain n where
    n: "User_countDocuments L xs s = Inr n" "n \<noteq> length xs"
    by blast
  from kj have "xs \<noteq> []" by auto
  with at have "attendeesToCheck b = Some xs"
    by (simp add: attendeesToCheck_def)
  from checkBody_attendees [OF d o this n]
  have c: "checkBody L b s = Inr (Some ''One or more attendees not found'')" .
  show "postMeeting L E b s
      = (\<lparr>status = 400, payload = Error ''One or more attendees not found''\<rparr>, s)"
    using v c by (rule postMeeting_check_fails)
  show "putMeeting L E i b s
      = (\<lparr>status = 400, payload = Error ''One or more attendees not found''\<rparr>, s)"
    using v c by (rule putMeeting_check_fails)
qed

theorem duplicate_attendees_rejected_witness:
  "distinct (map u_id (users sampleStore)) \<and>
   validateMeeting sampleLib
     (withAttendees [JStr ''64b7f0c2a1b2c3d4e5f60002'', JStr ''64b7f0c2a1b2c3d4e5f60002''] sampleBody) = [] \<and>
   \<not> startNotBeforeEnd sampleLib
     (withAttendees [JStr ''64b7f0c2a1b2c3d4e5f60002'', JStr ''64b7f0c2a1b2c3d4e5f60002''] sampleBody) \<and>
   User_findById sampleLib
     (withAttendees [JStr ''64b7f0c2a1b2c3d4e5f60002'', JStr ''64b7f0c2a1b2c3d4e5f60002''] sampleBody
        ''organizer'') sampleStore = Inr (Some alice) \<and>
   CastFails \<notin> set (map (castObjectId sampleLib)
     [JStr ''64b7f0c2a1b2c3d4e5f60002'', JStr ''64b7f0c2a1b2c3d4e5f60002'']) \<and>
   ''64b7f0c2a1b2c3d4e5f60002'' \<in> set (map u_id (users sampleStore)) \<and>
   postMeeting sampleLib sampleEnv
     (withAttendees [JStr ''64b7f0c2a1b2c3d4e5f60002'', JStr ''64b7f0c2a1b2c3d4e5f60002''] sampleBody)
     sampleStore
     = (\<lparr>status = 400, payload = Error ''One or more attendees not found''\<rparr>, sampleStore) \<and>
   putMeeting sampleLib sampleEnv ''64b7f0c2a1b2c3d4e5f6a002''
     (withAttendees [JStr ''64b7f0c2a1b2c3d4e5f60002'', JStr ''64b7f0c2a1b2c3d4e5f60002''] sampleBody)
     sampleStore
     = (\<lparr>status = 400, payload = Error ''One or more attendees not found''\<rparr>, sampleStore)"
proof -
  let ?xs = "[JStr ''64b7f0c2a1b2c3d4e5f60002'', JStr ''64b7f0c2a1b2c3d4e5f60002'']"
  let ?b = "withAttendees ?xs sampleBody"
  have du: "distinct (map u_id (users sampleStore))" by code_simp
  have v: "validateMeeting sampleLib ?b = []" by code_simp
  have d: "\<not> startNotBeforeEnd sampleLib ?b" by code_simp
  have o: "User_findById sampleLib (?b ''organizer'') sampleStore = Inr (Some alice)" by code_simp
  have at: "?b ''attendees'' = Some (JArr ?xs)" by (simp add: withAttendees_def)
  have nf: "CastFails \<notin> set (map (castObjectId sampleLib) ?xs)" by code_simp
  have kj: "(0::nat) < 1" "(1::nat) < length ?xs"
    "castObjectId sampleLib (?xs ! 0) = castObjectId sampleLib (?xs ! 1)"
    by simp_all
  have ex: "''64b7f0c2a1b2c3d4e5f60002'' \<in> set (map u_id (users sampleStore))" by code_simp
  note t = duplicate_attendees_rejected [of sampleStore sampleLib ?b alice ?xs 0 1 sampleEnv
      "''64b7f0c2a1b2c3d4e5f6a002''"]
  have r: "postMeeting sampleLib sampleEnv ?b sampleStore
       = (\<lparr>status = 400, payload = Error ''One or more attendees not found''\<rparr>, sampleStore) \<and>
     putMeeting sampleLib sampleEnv ''64b7f0c2a1b2c3d4e5f6a002'' ?b sampleStore
       = (\<lparr>status = 400, payload = Error ''One or more attendees not found''\<rparr>, sampleStore)"
    by (rule mp [OF t]) (intro conjI du v d o at nf kj)
  from du v d o nf ex r show ?thesis by (intro conjI) (elim conjE, assumption)+
qed

end
